theory Spec2Isabelle
  imports Main "HOL-Library.Word"
begin

section \<open>Runtime values: bytes, strings, base64, array reads\<close>

text \<open>
  A \<open>Buffer\<close> or \<open>Uint8Array\<close> is a list of 8-bit words.  The strings of the program are
  base64 text and messages; they are modelled as lists of characters and compared by
  character code, as the \<open><\<close> of the language compares its code units.
\<close>

type_synonym byte = "8 word"
type_synonym bytes = "byte list"

text \<open>
  A thrown exception is a value.  \<open>TypeError\<close> is what the runtime raises when a property
  of \<open>undefined\<close> is read or \<open>undefined\<close> is given to \<open>Buffer.from\<close>; \<open>LibraryError\<close> stands
  for whatever an imported package (curve, cipher, KEM) throws.
\<close>

datatype error = TypeError | LibraryError

definition bind_err :: "error + 'a \<Rightarrow> ('a \<Rightarrow> error + 'b) \<Rightarrow> error + 'b" where
  "bind_err r f = (case r of Inl e \<Rightarrow> Inl e | Inr v \<Rightarrow> f v)"

text \<open>
  \<open>xs[i]\<close> for a number \<open>i\<close>: the element when \<open>i\<close> addresses one, \<open>undefined\<close> (here
  \<open>None\<close>) otherwise; reading out of range does not throw by itself.
\<close>

definition js_index :: "'a list \<Rightarrow> int \<Rightarrow> 'a option" where
  "js_index xs i = (if 0 \<le> i \<and> nat i < length xs then Some (xs ! nat i) else None)"

text \<open>The relational \<open><\<close> on two strings: lexicographic on the character codes.\<close>

fun js_string_less :: "string \<Rightarrow> string \<Rightarrow> bool" where
  "js_string_less [] [] = False"
| "js_string_less [] (y # ys) = True"
| "js_string_less (x # xs) [] = False"
| "js_string_less (x # xs) (y # ys) =
     (if (of_char x :: nat) < of_char y then True
      else if (of_char y :: nat) < of_char x then False
      else js_string_less xs ys)"

text \<open>\<open>Buffer.from(s)\<close> on ASCII text: one byte per character.\<close>

definition utf8_bytes :: "string \<Rightarrow> bytes" where
  "utf8_bytes s = map (\<lambda>c. of_nat (of_char c)) s"

subsection \<open>Base64, as \<open>Buffer\<close> writes and reads it\<close>

text \<open>
  The alphabet \<open>A-Z a-z 0-9 + /\<close>, by character code: the sextet \<open>n\<close> is written as
  the character \<open>b64_char n\<close>.
\<close>

definition b64_char :: "nat \<Rightarrow> char" where
  "b64_char n =
     (if n < 26 then char_of (n + 65)
      else if n < 52 then char_of (n + 71)
      else if n < 62 then char_of (n - 4)
      else if n = 62 then CHR ''+'' else CHR ''/'')"

text \<open>\<open>buf.toString("base64")\<close>: three bytes give four characters, the tail is padded.\<close>

fun base64_encode :: "bytes \<Rightarrow> string" where
  "base64_encode (a # b # c # rest) =
     b64_char (unat a div 4) #
     b64_char ((unat a mod 4) * 16 + unat b div 16) #
     b64_char ((unat b mod 16) * 4 + unat c div 64) #
     b64_char (unat c mod 64) # base64_encode rest"
| "base64_encode [a, b] =
     [b64_char (unat a div 4),
      b64_char ((unat a mod 4) * 16 + unat b div 16),
      b64_char ((unat b mod 16) * 4), CHR ''='']"
| "base64_encode [a] =
     [b64_char (unat a div 4), b64_char ((unat a mod 4) * 16), CHR ''='', CHR ''='']"
| "base64_encode [] = []"

text \<open>
  \<open>Buffer.from(s, "base64")\<close> is forgiving: it stops at the first \<open>=\<close>, skips every
  character outside the alphabet, and accepts the URL-safe \<open>-\<close> and \<open>_\<close> for 62 and 63.
\<close>

definition b64_value :: "char \<Rightarrow> nat option" where
  "b64_value c =
     (let n = (of_char c :: nat) in
      if 65 \<le> n \<and> n \<le> 90 then Some (n - 65)
      else if 97 \<le> n \<and> n \<le> 122 then Some (n - 71)
      else if 48 \<le> n \<and> n \<le> 57 then Some (n + 4)
      else if n = 43 \<or> n = 45 then Some 62
      else if n = 47 \<or> n = 95 then Some 63
      else None)"

definition b64_sextets :: "string \<Rightarrow> nat list" where
  "b64_sextets s = List.map_filter b64_value (takeWhile (\<lambda>c. c \<noteq> CHR ''='') s)"

fun sextets_to_bytes :: "nat list \<Rightarrow> bytes" where
  "sextets_to_bytes (a # b # c # d # rest) =
     of_nat (a * 4 + b div 16) #
     of_nat ((b mod 16) * 16 + c div 4) #
     of_nat ((c mod 4) * 64 + d) # sextets_to_bytes rest"
| "sextets_to_bytes [a, b, c] =
     [of_nat (a * 4 + b div 16), of_nat ((b mod 16) * 16 + c div 4)]"
| "sextets_to_bytes [a, b] = [of_nat (a * 4 + b div 16)]"
| "sextets_to_bytes [a] = []"
| "sextets_to_bytes [] = []"

definition base64_decode :: "string \<Rightarrow> bytes" where
  "base64_decode s = sextets_to_bytes (b64_sextets s)"

section \<open>The imported packages\<close>

text \<open>
  The curve (\<open>x25519\<close> of the package noble-curves), the hash (\<open>sha512\<close>), the
  cipher (\<open>AES\<close> of crypto-js in CBC mode with PKCS7 padding, keyed by a passphrase) and the
  KEM (\<open>MlKem1024\<close>) are imported packages, not code of the program.  They are parameters
  of the model: every function below takes the record \<open>P\<close> of them.  A call that can throw on
  input it does not accept returns a sum.  The randomness a package draws inside a call
  (the salt of the cipher, the coins of the encapsulation, the seed of the KEM key pair) is
  passed as an argument, so that every function of the model is deterministic.

  \<open>getPublicKey\<close> is only ever applied to the 32 bytes that \<open>randomBytes(32)\<close> has just
  returned, which it accepts; \<open>AES_decrypt\<close> stands for
  \<open>AES.decrypt(c, k, opts).toString(enc.Utf8)\<close>.
\<close>

record primitives =
  getPublicKey :: "bytes \<Rightarrow> bytes"
  getSharedSecret :: "bytes \<Rightarrow> bytes \<Rightarrow> error + bytes"
  sha512 :: "bytes \<Rightarrow> bytes"
  AES_encrypt :: "bytes \<Rightarrow> string \<Rightarrow> string \<Rightarrow> error + string"
  AES_decrypt :: "string \<Rightarrow> string \<Rightarrow> error + string"
  kyber_generateKeyPair :: "bytes \<Rightarrow> bytes \<times> bytes"
  kyber_encap :: "bytes \<Rightarrow> bytes \<Rightarrow> error + bytes \<times> bytes"
  kyber_decap :: "bytes \<Rightarrow> bytes \<Rightarrow> error + bytes"

text \<open>
  Modelled from the spec: \<open>x25519\<close> is not part of the sources.  The specification's
  glossary describes DH as an "elliptic-curve operation combining one party's private
  scalar and another's public point into a shared secret, commutative across the two
  parties".  Here: for the 32-byte private keys that \<open>randomBytes(32)\<close> returns, the two
  calls give the same value, or both throw.
\<close>

definition x25519_commutes :: "primitives \<Rightarrow> bool" where
  "x25519_commutes P \<longleftrightarrow>
     (\<forall>a b. length a = 32 \<and> length b = 32 \<longrightarrow>
        getSharedSecret P a (getPublicKey P b) = getSharedSecret P b (getPublicKey P a))"

text \<open>
  Modelled from the spec: the cipher is not part of the sources (the specification names
  it an external collaborator).  What the program relies on: under the same passphrase it
  decrypts what it encrypted, whatever salt it drew.
\<close>

definition AES_roundtrip :: "primitives \<Rightarrow> bool" where
  "AES_roundtrip P \<longleftrightarrow>
     (\<forall>salt m k c. AES_encrypt P salt m k = Inr c \<longrightarrow> AES_decrypt P c k = Inr m)"

text \<open>
  Modelled from the spec: the KEM is not part of the sources.  The glossary: "decapsulate
  takes the ciphertext and matching private key and recovers the same secret".  (The
  decryption failure of ML-KEM, of negligible probability, is left out as the
  specification leaves it out.)
\<close>

definition kyber_correct :: "primitives \<Rightarrow> bool" where
  "kyber_correct P \<longleftrightarrow>
     (\<forall>seed coins ct ss.
        kyber_encap P coins (fst (kyber_generateKeyPair P seed)) = Inr (ct, ss) \<longrightarrow>
        kyber_decap P ct (snd (kyber_generateKeyPair P seed)) = Inr ss)"

section \<open>utils/crypto.ts: CryptoUtils\<close>

definition APP_INFO :: string where
  "APP_INFO = ''X3DH_Demo_v1''"

record KeyPair =
  publicKey :: string
  privateKey :: string

record SignedPreKeyPair = KeyPair +
  signature :: string

text \<open>
  \<open>generateSafetyNumber\<close>: the local \<open>combinedKeys\<close> is the input of the hash; it has a
  definition of its own so that statements can speak about it.
\<close>

definition safetyNumber_combinedKeys :: "string \<Rightarrow> string \<Rightarrow> bytes" where
  "safetyNumber_combinedKeys key1 key2 =
     (let (firstKey, secondKey) = (if js_string_less key1 key2 then (key1, key2) else (key2, key1))
      in base64_decode firstKey @ base64_decode secondKey)"

definition generateSafetyNumber :: "primitives \<Rightarrow> string \<Rightarrow> string \<Rightarrow> string" where
  "generateSafetyNumber P key1 key2 =
     (let combinedKeys = safetyNumber_combinedKeys key1 key2;
          digest = sha512 P combinedKeys
      in take 12 (base64_encode digest))"

text \<open>\<open>generateKeyPair\<close>; \<open>rnd\<close> is what \<open>randomBytes(32)\<close> returns in this call.\<close>

definition generateKeyPair :: "primitives \<Rightarrow> bytes \<Rightarrow> KeyPair" where
  "generateKeyPair P rnd =
     (let priv = rnd; pub = getPublicKey P priv
      in \<lparr>publicKey = base64_encode pub, privateKey = base64_encode priv\<rparr>)"

definition generatePreKey :: "primitives \<Rightarrow> bytes \<Rightarrow> KeyPair" where
  "generatePreKey P rnd = generateKeyPair P rnd"

definition sign :: "primitives \<Rightarrow> string \<Rightarrow> string \<Rightarrow> string" where
  "sign P privKey dat =
     (let privateKeyBytes = base64_decode privKey;
          dataBytes = base64_decode dat;
          signatureInput = privateKeyBytes @ dataBytes
      in base64_encode (sha512 P signatureInput))"

definition generateSignedPreKey :: "primitives \<Rightarrow> string \<Rightarrow> bytes \<Rightarrow> SignedPreKeyPair" where
  "generateSignedPreKey P identityPrivateKey rnd =
     (let keyPair = generateKeyPair P rnd;
          sig = sign P identityPrivateKey (publicKey keyPair)
      in \<lparr>publicKey = publicKey keyPair, privateKey = privateKey keyPair, signature = sig\<rparr>)"

definition deriveKey :: "primitives \<Rightarrow> string \<Rightarrow> string" where
  "deriveKey P keyMaterial =
     (let keyBytes = base64_decode keyMaterial;
          info = utf8_bytes APP_INFO;
          derivationInput = keyBytes @ info;
          derivedKey = sha512 P derivationInput
      in base64_encode (take 32 derivedKey))"

definition encrypt :: "primitives \<Rightarrow> bytes \<Rightarrow> string \<Rightarrow> string \<Rightarrow> error + string" where
  "encrypt P salt message key = (let derivedKey = deriveKey P key in AES_encrypt P salt message derivedKey)"

definition decrypt :: "primitives \<Rightarrow> string \<Rightarrow> string \<Rightarrow> error + string" where
  "decrypt P encMsg key = (let derivedKey = deriveKey P key in AES_decrypt P encMsg derivedKey)"

definition deriveSharedSecret :: "primitives \<Rightarrow> string \<Rightarrow> string \<Rightarrow> error + string" where
  "deriveSharedSecret P privKey pubKey =
     (let privateKeyBytes = base64_decode privKey;
          publicKeyBytes = base64_decode pubKey
      in bind_err (getSharedSecret P privateKeyBytes publicKeyBytes)
           (\<lambda>sharedSecret. Inr (base64_encode sharedSecret)))"

definition combineSharedSecrets :: "primitives \<Rightarrow> string list \<Rightarrow> string" where
  "combineSharedSecrets P secrets =
     (let combinedSecrets = map base64_decode secrets;
          concatenated = concat combinedSecrets;
          info = utf8_bytes APP_INFO;
          finalInput = concatenated @ info;
          finalHash = sha512 P finalInput
      in base64_encode finalHash)"

section \<open>x3dh/X3DH.ts: the class X3DH\<close>

record X3DHSession =
  identityKey :: KeyPair
  preKeys :: "KeyPair list"
  signedPreKey :: SignedPreKeyPair

record SignedPreKeyPublic =
  spk_publicKey :: string
  spk_signature :: string

record X3DHBundle =
  bundle_identityKey :: string
  bundle_preKeys :: "string list"
  bundle_signedPreKey :: SignedPreKeyPublic

record X3DHMessage =
  encryptedMessage :: string
  ephemeralKey :: string
  usedPreKeyIndex :: int

text \<open>
  \<open>initializeSession\<close> draws twelve key pairs: \<open>rnd k\<close> is what the \<open>k\<close>-th call of
  \<open>randomBytes(32)\<close> returns (identity key, ten pre-keys, signed pre-key, in this order).
\<close>

definition X3DH_initializeSession :: "primitives \<Rightarrow> (nat \<Rightarrow> bytes) \<Rightarrow> X3DHSession" where
  "X3DH_initializeSession P rnd =
     (let idKey = generateKeyPair P (rnd 0);
          pks = map (\<lambda>k. generatePreKey P (rnd (Suc k))) [0..<10];
          spk = generateSignedPreKey P (privateKey idKey) (rnd 11)
      in \<lparr>identityKey = idKey, preKeys = pks, signedPreKey = spk\<rparr>)"

text \<open>
  A method of the class is a function of the object's field \<open>session\<close> (\<open>this\<close>) that
  returns what the method returns, or the exception it throws, together with the field as
  the call leaves it.
\<close>

definition X3DH_getPublicBundle :: "X3DHSession \<Rightarrow> X3DHBundle \<times> X3DHSession" where
  "X3DH_getPublicBundle this =
     (\<lparr>bundle_identityKey = publicKey (identityKey this),
       bundle_preKeys = map (\<lambda>pk. publicKey pk) (preKeys this),
       bundle_signedPreKey =
         \<lparr>spk_publicKey = publicKey (signedPreKey this),
          spk_signature = signature (signedPreKey this)\<rparr>\<rparr>, this)"

text \<open>
  The local \<open>sharedSecret\<close> of \<open>encryptMessage\<close>, for the ephemeral key pair \<open>eph\<close>: the
  four Diffie-Hellman values in the order of the source, then \<open>combineSharedSecrets\<close>.
  \<open>usedPreKey\<close> is \<open>undefined\<close> when the bundle has no pre-key, and \<open>Buffer.from\<close> throws
  on it when the third value is derived.
\<close>

definition X3DH_encrypt_sharedSecret ::
  "primitives \<Rightarrow> X3DHSession \<Rightarrow> KeyPair \<Rightarrow> X3DHBundle \<Rightarrow> error + string" where
  "X3DH_encrypt_sharedSecret P this eph recipientBundle =
     (let usedPreKey = js_index (bundle_preKeys recipientBundle) 0 in
      bind_err (deriveSharedSecret P (privateKey (identityKey this))
                  (bundle_identityKey recipientBundle)) (\<lambda>dh1.
      bind_err (deriveSharedSecret P (privateKey eph)
                  (bundle_identityKey recipientBundle)) (\<lambda>dh2.
      bind_err (case usedPreKey of None \<Rightarrow> Inl TypeError
                | Some pk \<Rightarrow> deriveSharedSecret P (privateKey eph) pk) (\<lambda>dh3.
      bind_err (deriveSharedSecret P (privateKey eph)
                  (spk_publicKey (bundle_signedPreKey recipientBundle))) (\<lambda>dh4.
      Inr (combineSharedSecrets P [dh1, dh2, dh3, dh4]))))))"

definition X3DH_encryptMessage ::
  "primitives \<Rightarrow> bytes \<Rightarrow> bytes \<Rightarrow> X3DHSession \<Rightarrow> X3DHBundle \<Rightarrow> string \<Rightarrow>
     (error + X3DHMessage) \<times> X3DHSession" where
  "X3DH_encryptMessage P rnd salt this recipientBundle message =
     (let eph = generateKeyPair P rnd in
      (bind_err (X3DH_encrypt_sharedSecret P this eph recipientBundle) (\<lambda>sharedSecret.
       bind_err (encrypt P salt message sharedSecret) (\<lambda>enc.
       Inr \<lparr>encryptedMessage = enc, ephemeralKey = publicKey eph, usedPreKeyIndex = 0\<rparr>)),
       this))"

text \<open>
  The local \<open>sharedSecret\<close> of \<open>decryptMessage\<close>.  \<open>usedPreKey\<close> is \<open>undefined\<close> when the
  index addresses no pre-key of the session, and reading its \<open>privateKey\<close> throws after the
  first two values have been derived.
\<close>

definition X3DH_decrypt_sharedSecret ::
  "primitives \<Rightarrow> X3DHSession \<Rightarrow> X3DHBundle \<Rightarrow> string \<Rightarrow> int \<Rightarrow> error + string" where
  "X3DH_decrypt_sharedSecret P this senderBundle ephKey idx =
     (let usedPreKey = js_index (preKeys this) idx in
      bind_err (deriveSharedSecret P (privateKey (identityKey this))
                  (bundle_identityKey senderBundle)) (\<lambda>dh1.
      bind_err (deriveSharedSecret P (privateKey (identityKey this)) ephKey) (\<lambda>dh2.
      bind_err (case usedPreKey of None \<Rightarrow> Inl TypeError
                | Some pk \<Rightarrow> deriveSharedSecret P (privateKey pk) ephKey) (\<lambda>dh3.
      bind_err (deriveSharedSecret P (privateKey (signedPreKey this)) ephKey) (\<lambda>dh4.
      Inr (combineSharedSecrets P [dh1, dh2, dh3, dh4]))))))"

definition X3DH_decryptMessage ::
  "primitives \<Rightarrow> X3DHSession \<Rightarrow> X3DHBundle \<Rightarrow> string \<Rightarrow> string \<Rightarrow> int \<Rightarrow>
     (error + string) \<times> X3DHSession" where
  "X3DH_decryptMessage P this senderBundle encMsg ephKey idx =
     (bind_err (X3DH_decrypt_sharedSecret P this senderBundle ephKey idx) (\<lambda>sharedSecret.
      decrypt P encMsg sharedSecret), this)"

section \<open>The class PQXDH\<close>

text \<open>
  The hybrid class repeats the classical one and adds the KEM.  Its methods are \<open>async\<close>:
  a rejected promise is the thrown exception, and nothing runs between the steps of one
  call, so the model is the same sequential one.
\<close>

record KyberKeyPair =
  kyber_publicKey :: bytes
  kyber_privateKey :: bytes

record PQXDHSession = X3DHSession +
  kyberKeyPair :: KyberKeyPair

record PQXDHBundle = X3DHBundle +
  bundle_kyberPublicKey :: bytes

record PQXDHMessage = X3DHMessage +
  kyberCiphertext :: bytes

definition PQXDH_initializeSession ::
  "primitives \<Rightarrow> (nat \<Rightarrow> bytes) \<Rightarrow> bytes \<Rightarrow> PQXDHSession" where
  "PQXDH_initializeSession P rnd seed =
     (let idKey = generateKeyPair P (rnd 0);
          pks = map (\<lambda>k. generatePreKey P (rnd (Suc k))) [0..<10];
          spk = generateSignedPreKey P (privateKey idKey) (rnd 11);
          (kyberPub, kyberPriv) = kyber_generateKeyPair P seed
      in \<lparr>identityKey = idKey, preKeys = pks, signedPreKey = spk,
          kyberKeyPair = \<lparr>kyber_publicKey = kyberPub, kyber_privateKey = kyberPriv\<rparr>\<rparr>)"

definition PQXDH_getPublicBundle :: "PQXDHSession \<Rightarrow> PQXDHBundle \<times> PQXDHSession" where
  "PQXDH_getPublicBundle this =
     (\<lparr>bundle_identityKey = publicKey (identityKey this),
       bundle_preKeys = map (\<lambda>pk. publicKey pk) (preKeys this),
       bundle_signedPreKey =
         \<lparr>spk_publicKey = publicKey (signedPreKey this),
          spk_signature = signature (signedPreKey this)\<rparr>,
       bundle_kyberPublicKey = kyber_publicKey (kyberKeyPair this)\<rparr>, this)"

text \<open>
  The locals \<open>kyberCiphertext\<close> and \<open>sharedSecret\<close> of the hybrid \<open>encryptMessage\<close>:
  the encapsulation comes after the four Diffie-Hellman values, and its secret is the
  fifth element of the list.
\<close>

definition PQXDH_encrypt_sharedSecret ::
  "primitives \<Rightarrow> bytes \<Rightarrow> PQXDHSession \<Rightarrow> KeyPair \<Rightarrow> PQXDHBundle \<Rightarrow> error + bytes \<times> string" where
  "PQXDH_encrypt_sharedSecret P coins this eph recipientBundle =
     (let usedPreKey = js_index (bundle_preKeys recipientBundle) 0 in
      bind_err (deriveSharedSecret P (privateKey (identityKey this))
                  (bundle_identityKey recipientBundle)) (\<lambda>dh1.
      bind_err (deriveSharedSecret P (privateKey eph)
                  (bundle_identityKey recipientBundle)) (\<lambda>dh2.
      bind_err (case usedPreKey of None \<Rightarrow> Inl TypeError
                | Some pk \<Rightarrow> deriveSharedSecret P (privateKey eph) pk) (\<lambda>dh3.
      bind_err (deriveSharedSecret P (privateKey eph)
                  (spk_publicKey (bundle_signedPreKey recipientBundle))) (\<lambda>dh4.
      bind_err (kyber_encap P coins (bundle_kyberPublicKey recipientBundle))
        (\<lambda>(kyberCt, kyberSharedSecret).
      Inr (kyberCt,
           combineSharedSecrets P [dh1, dh2, dh3, dh4, base64_encode kyberSharedSecret])))))))"

definition PQXDH_encryptMessage ::
  "primitives \<Rightarrow> bytes \<Rightarrow> bytes \<Rightarrow> bytes \<Rightarrow> PQXDHSession \<Rightarrow> PQXDHBundle \<Rightarrow> string \<Rightarrow>
     (error + PQXDHMessage) \<times> PQXDHSession" where
  "PQXDH_encryptMessage P rnd coins salt this recipientBundle message =
     (let eph = generateKeyPair P rnd in
      (bind_err (PQXDH_encrypt_sharedSecret P coins this eph recipientBundle)
         (\<lambda>(kyberCt, sharedSecret).
       bind_err (encrypt P salt message sharedSecret) (\<lambda>enc.
       Inr \<lparr>encryptedMessage = enc, ephemeralKey = publicKey eph, usedPreKeyIndex = 0,
            kyberCiphertext = kyberCt\<rparr>)),
       this))"

definition PQXDH_decrypt_sharedSecret ::
  "primitives \<Rightarrow> PQXDHSession \<Rightarrow> PQXDHBundle \<Rightarrow> string \<Rightarrow> int \<Rightarrow> bytes \<Rightarrow> error + string" where
  "PQXDH_decrypt_sharedSecret P this senderBundle ephKey idx kyberCt =
     (let usedPreKey = js_index (preKeys this) idx in
      bind_err (deriveSharedSecret P (privateKey (identityKey this))
                  (bundle_identityKey senderBundle)) (\<lambda>dh1.
      bind_err (deriveSharedSecret P (privateKey (identityKey this)) ephKey) (\<lambda>dh2.
      bind_err (case usedPreKey of None \<Rightarrow> Inl TypeError
                | Some pk \<Rightarrow> deriveSharedSecret P (privateKey pk) ephKey) (\<lambda>dh3.
      bind_err (deriveSharedSecret P (privateKey (signedPreKey this)) ephKey) (\<lambda>dh4.
      bind_err (kyber_decap P kyberCt (kyber_privateKey (kyberKeyPair this)))
        (\<lambda>kyberSharedSecret.
      Inr (combineSharedSecrets P [dh1, dh2, dh3, dh4, base64_encode kyberSharedSecret])))))))"

definition PQXDH_decryptMessage ::
  "primitives \<Rightarrow> PQXDHSession \<Rightarrow> PQXDHBundle \<Rightarrow> string \<Rightarrow> string \<Rightarrow> int \<Rightarrow> bytes \<Rightarrow>
     (error + string) \<times> PQXDHSession" where
  "PQXDH_decryptMessage P this senderBundle encMsg ephKey idx kyberCt =
     (bind_err (PQXDH_decrypt_sharedSecret P this senderBundle ephKey idx kyberCt)
        (\<lambda>sharedSecret. decrypt P encMsg sharedSecret), this)"

section \<open>The order the specification describes for the safety number\<close>

text \<open>
  Byte-wise lexicographic comparison of two byte strings (unsigned byte values), the order
  that the specification's description of \<open>generateSafetyNumber\<close> names.
\<close>

fun bytes_less :: "bytes \<Rightarrow> bytes \<Rightarrow> bool" where
  "bytes_less [] [] = False"
| "bytes_less [] (y # ys) = True"
| "bytes_less (x # xs) [] = False"
| "bytes_less (x # xs) (y # ys) =
     (if unat x < unat y then True
      else if unat y < unat x then False
      else bytes_less xs ys)"

section \<open>A small instance of the packages, and two parties\<close>

text \<open>
  To run the model on concrete inputs the packages need values.  \<open>toy\<close> is a small
  instance that meets the three properties above: multiples of 3 modulo the prime 251
  (on the first byte of a key) for the curve, a two-byte checksum for the
  hash, a cipher that prefixes the passphrase and checks it, and a KEM whose public key is
  the private key with every byte incremented.  It has none of the security of the real
  packages, which no statement below needs.
\<close>

definition toy_scalar :: "bytes \<Rightarrow> nat" where
  "toy_scalar bs = (case bs of [] \<Rightarrow> 0 | b # _ \<Rightarrow> unat b)"

definition toy :: primitives where
  "toy =
     \<lparr>getPublicKey = (\<lambda>sk. [of_nat (toy_scalar sk * 3 mod 251)]),
      getSharedSecret = (\<lambda>sk pk. Inr [of_nat (toy_scalar sk * toy_scalar pk mod 251)]),
      sha512 = (\<lambda>bs. [of_nat (length bs), foldr (+) bs 0]),
      AES_encrypt = (\<lambda>salt m k. Inr (k @ m)),
      AES_decrypt = (\<lambda>c k. if take (length k) c = k then Inr (drop (length k) c)
                            else Inl LibraryError),
      kyber_generateKeyPair = (\<lambda>seed. (map (\<lambda>b. b + 1) seed, seed)),
      kyber_encap = (\<lambda>coins pk. Inr (coins, coins @ pk)),
      kyber_decap = (\<lambda>ct sk. Inr (ct @ map (\<lambda>b. b + 1) sk))\<rparr>"

definition rnd_alice :: "nat \<Rightarrow> bytes" where
  "rnd_alice k = replicate 32 (of_nat (k + 2))"

definition rnd_bob :: "nat \<Rightarrow> bytes" where
  "rnd_bob k = replicate 32 (of_nat (k + 20))"

definition rnd_eph :: bytes where
  "rnd_eph = replicate 32 5"

definition alice :: X3DHSession where
  "alice = X3DH_initializeSession toy rnd_alice"

definition bob :: X3DHSession where
  "bob = X3DH_initializeSession toy rnd_bob"

definition pq_alice :: PQXDHSession where
  "pq_alice = PQXDH_initializeSession toy rnd_alice [1, 2, 3]"

definition pq_bob :: PQXDHSession where
  "pq_bob = PQXDH_initializeSession toy rnd_bob [4, 5, 6]"

text \<open>
  Values for the example run: the artifacts that Alice's \<open>encryptMessage\<close> returns for the
  message \<open>hello\<close> to Bob, a copy of Alice's session with every private key replaced,
  and copies of the public bundles in which everything but the fields a call reads is
  replaced.
\<close>

definition example_message :: X3DHMessage where
  "example_message =
     \<lparr>encryptedMessage = ''DtE=hello'', ephemeralKey = ''Dw=='', usedPreKeyIndex = 0\<rparr>"

definition pq_example_message :: PQXDHMessage where
  "pq_example_message =
     \<lparr>encryptedMessage = ''Dvo=hello'', ephemeralKey = ''Dw=='', usedPreKeyIndex = 0,
      kyberCiphertext = [9, 9]\<rparr>"

definition alice_other_privates :: X3DHSession where
  "alice_other_privates =
     alice\<lparr>identityKey := (identityKey alice)\<lparr>privateKey := ''AAAA''\<rparr>,
           preKeys := map (\<lambda>kp. kp\<lparr>privateKey := ''BBBB''\<rparr>) (preKeys alice),
           signedPreKey := (signedPreKey alice)\<lparr>privateKey := ''CCCC''\<rparr>\<rparr>"

definition pq_alice_other_privates :: PQXDHSession where
  "pq_alice_other_privates =
     pq_alice\<lparr>identityKey := (identityKey pq_alice)\<lparr>privateKey := ''AAAA''\<rparr>,
              preKeys := map (\<lambda>kp. kp\<lparr>privateKey := ''BBBB''\<rparr>) (preKeys pq_alice),
              signedPreKey := (signedPreKey pq_alice)\<lparr>privateKey := ''CCCC''\<rparr>,
              kyberKeyPair := (kyberKeyPair pq_alice)\<lparr>kyber_privateKey := [0]\<rparr>\<rparr>"

definition bob_bundle_other_prekeys :: X3DHBundle where
  "bob_bundle_other_prekeys =
     (fst (X3DH_getPublicBundle bob))\<lparr>bundle_preKeys := [''Pw=='', ''AAAA'']\<rparr>"

definition pq_bob_bundle_other_prekeys :: PQXDHBundle where
  "pq_bob_bundle_other_prekeys =
     (fst (PQXDH_getPublicBundle pq_bob))\<lparr>bundle_preKeys := [''Pw=='', ''AAAA'']\<rparr>"

definition alice_bundle_identity_only :: X3DHBundle where
  "alice_bundle_identity_only =
     (fst (X3DH_getPublicBundle alice))
       \<lparr>bundle_preKeys := [],
        bundle_signedPreKey := \<lparr>spk_publicKey = ''AAAA'', spk_signature = ''BBBB''\<rparr>\<rparr>"

definition pq_alice_bundle_identity_only :: PQXDHBundle where
  "pq_alice_bundle_identity_only =
     (fst (PQXDH_getPublicBundle pq_alice))
       \<lparr>bundle_preKeys := [],
        bundle_signedPreKey := \<lparr>spk_publicKey = ''AAAA'', spk_signature = ''BBBB''\<rparr>,
        bundle_kyberPublicKey := []\<rparr>"

text \<open>
  Two identity keys as they are exchanged: the base64 text of the two public keys of the
  Diffie-Hellman example of RFC 7748 (section 6.1), which are public keys of the curve.
  Their bytes start with \<open>0x85\<close> and \<open>0xde\<close>.
\<close>

definition rfc_key_a :: string where
  "rfc_key_a = ''hSDwCYkwp1R0i33ctD73Wg2/Og0mOBr066SpjqqbTmo=''"

definition rfc_key_b :: string where
  "rfc_key_b = ''3p7bfXt9wbTTW2HC7OQ1Nz+DQ8hbeGdNrfx+FG+IK08=''"

text \<open>
  A run in which a private key and a public key coincide as values.  The first key pair of
  RFC 7748 (section 6.1) has the private key \<open>77076d0a...\<close> and the public key
  \<open>8520f009...\<close>, the bytes of \<open>rfc_key_a\<close>.  \<open>curve_at_rfc_pair\<close> is the small
  instance with \<open>getPublicKey\<close> as the curve has it on that private key, and
  \<open>rnd_coincide\<close> is a sequence of results of \<open>randomBytes(32)\<close> in which the bytes
  drawn for the identity key are \<open>8520f009...\<close> and the bytes drawn for the first pre-key
  are \<open>77076d0a...\<close>.
\<close>

definition rfc_public_a :: bytes where
  "rfc_public_a =
     [133, 32, 240, 9, 137, 48, 167, 84, 116, 139, 125, 220, 180, 62, 247, 90,
      13, 191, 58, 13, 38, 56, 26, 244, 235, 164, 169, 142, 170, 155, 78, 106]"

definition rfc_private_a :: bytes where
  "rfc_private_a =
     [119, 7, 109, 10, 115, 24, 165, 125, 60, 22, 193, 114, 81, 178, 102, 69,
      223, 76, 47, 135, 235, 192, 153, 42, 177, 119, 251, 165, 29, 185, 44, 42]"

definition curve_at_rfc_pair :: primitives where
  "curve_at_rfc_pair =
     toy\<lparr>getPublicKey :=
            (\<lambda>sk. if sk = rfc_private_a then rfc_public_a else getPublicKey toy sk)\<rparr>"

definition rnd_coincide :: "nat \<Rightarrow> bytes" where
  "rnd_coincide k =
     (if k = 0 then rfc_public_a else if k = 1 then rfc_private_a
      else replicate 32 (of_nat k))"

section \<open>Facts about the runtime model\<close>

lemma b64_value_char: "n < 64 \<Longrightarrow> b64_value (b64_char n) = Some n"
  by (auto simp: b64_value_def b64_char_def Let_def)

lemma b64_value_pad: "b64_value CHR ''='' = None"
  by (simp add: b64_value_def)

lemma b64_char_not_pad: "n < 64 \<Longrightarrow> b64_char n \<noteq> CHR ''=''"
  using b64_value_char [of n] b64_value_pad by auto

lemma b64_sextets_char: "n < 64 \<Longrightarrow> b64_sextets (b64_char n # s) = n # b64_sextets s"
  by (simp add: b64_sextets_def b64_char_not_pad b64_value_char List.map_filter_simps)

lemma b64_sextets_pad: "b64_sextets (CHR ''='' # s) = []"
  by (simp add: b64_sextets_def List.map_filter_simps)

lemma b64_sextets_Nil: "b64_sextets [] = []"
  by (simp add: b64_sextets_def List.map_filter_simps)

lemma unat_byte_bound: "unat (a :: byte) < 256"
  using unsigned_less [of a, where ?'a = nat] by simp

lemma regroup1:
  fixes x y :: nat
  assumes "y < 256"
  shows "(x div 4) * 4 + ((x mod 4) * 16 + y div 16) div 16 = x"
proof -
  have "y div 16 < 16" using assms by simp
  then have "((x mod 4) * 16 + y div 16) div 16 = x mod 4" by simp
  then show ?thesis by simp
qed

lemma regroup2:
  fixes x y z :: nat
  assumes "y < 256" and "z < 256"
  shows "(((x mod 4) * 16 + y div 16) mod 16) * 16 + ((y mod 16) * 4 + z div 64) div 4 = y"
proof -
  have "y div 16 < 16" using assms by simp
  then have hi: "((x mod 4) * 16 + y div 16) mod 16 = y div 16" by simp
  have "z div 64 < 4" using assms by simp
  then have lo: "((y mod 16) * 4 + z div 64) div 4 = y mod 16" by simp
  show ?thesis unfolding hi lo by simp
qed

lemma regroup3:
  fixes y z :: nat
  assumes "z < 256"
  shows "(((y mod 16) * 4 + z div 64) mod 4) * 64 + z mod 64 = z"
proof -
  have "z div 64 < 4" using assms by simp
  then have "((y mod 16) * 4 + z div 64) mod 4 = z div 64" by simp
  then show ?thesis by simp
qed

lemma sextet_bounds:
  fixes x y :: nat
  assumes "x < 256" and "y < 256"
  shows "x div 4 < 64" and "(x mod 4) * 16 + y div 16 < 64"
    and "(x mod 16) * 4 + y div 64 < 64" and "x mod 64 < 64"
    and "(x mod 16) * 4 < 64" and "(x mod 4) * 16 < 64"
proof -
  have a: "x mod 4 < 4" "x mod 16 < 16" by simp_all
  have b: "y div 16 < 16" "y div 64 < 4" using assms by simp_all
  show "x div 4 < 64" using assms by simp
  show "(x mod 4) * 16 + y div 16 < 64" using a b by linarith
  show "(x mod 16) * 4 + y div 64 < 64" using a b by linarith
  show "x mod 64 < 64" by simp
  show "(x mod 16) * 4 < 64" using a by linarith
  show "(x mod 4) * 16 < 64" using a by linarith
qed

lemma sextets_step4:
  assumes "n1 < 64" "n2 < 64" "n3 < 64" "n4 < 64"
  shows "b64_sextets (b64_char n1 # b64_char n2 # b64_char n3 # b64_char n4 # s) =
    n1 # n2 # n3 # n4 # b64_sextets s"
  using assms by (simp add: b64_sextets_char)

theorem base64_roundtrip: "base64_decode (base64_encode bs) = bs"
proof -
  have "sextets_to_bytes (b64_sextets (base64_encode bs)) = bs"
  proof (induction bs rule: base64_encode.induct)
    case (1 a b c rest)
    note bd = unat_byte_bound [of a] unat_byte_bound [of b] unat_byte_bound [of c]
    have s: "b64_sextets (base64_encode (a # b # c # rest)) =
      unat a div 4 # ((unat a mod 4) * 16 + unat b div 16) #
      ((unat b mod 16) * 4 + unat c div 64) # unat c mod 64 # b64_sextets (base64_encode rest)"
      unfolding base64_encode.simps
      by (rule sextets_step4)
        (rule sextet_bounds(1) [OF bd(1) bd(1)] sextet_bounds(2) [OF bd(1) bd(2)]
          sextet_bounds(3) [OF bd(2) bd(3)] sextet_bounds(4) [OF bd(3) bd(3)])+
    have "sextets_to_bytes (b64_sextets (base64_encode (a # b # c # rest))) =
      of_nat (unat a) # of_nat (unat b) # of_nat (unat c) #
      sextets_to_bytes (b64_sextets (base64_encode rest))"
      unfolding s sextets_to_bytes.simps
      by (simp only: regroup1 [OF bd(2)] regroup2 [OF bd(2) bd(3)] regroup3 [OF bd(3)])
    then show ?case
      using 1 by simp
  next
    case (2 a b)
    note bd = unat_byte_bound [of a] unat_byte_bound [of b]
    have r: "(((unat a mod 4) * 16 + unat b div 16) mod 16) * 16 + ((unat b mod 16) * 4 + 0 div 64) div 4 = unat b"
      by (rule regroup2) (simp_all add: bd)
    have s: "b64_sextets (base64_encode [a, b]) =
      [unat a div 4, (unat a mod 4) * 16 + unat b div 16, (unat b mod 16) * 4]"
      by (simp add: b64_sextets_char [OF sextet_bounds(1) [OF bd(1) bd(1)]]
          b64_sextets_char [OF sextet_bounds(2) [OF bd(1) bd(2)]]
          b64_sextets_char [OF sextet_bounds(5) [OF bd(2) bd(2)]] b64_sextets_pad)
    have "sextets_to_bytes (b64_sextets (base64_encode [a, b])) = [of_nat (unat a), of_nat (unat b)]"
      unfolding s sextets_to_bytes.simps
      using r by (simp only: regroup1 [OF bd(2)] div_0 add_0_right)
    then show ?case by simp
  next
    case (3 a)
    note bd = unat_byte_bound [of a]
    have r: "(unat a div 4) * 4 + ((unat a mod 4) * 16 + 0 div 16) div 16 = unat a"
      by (rule regroup1) simp
    have s: "b64_sextets (base64_encode [a]) = [unat a div 4, (unat a mod 4) * 16]"
      by (simp add: b64_sextets_char [OF sextet_bounds(1) [OF bd bd]]
          b64_sextets_char [OF sextet_bounds(6) [OF bd bd]] b64_sextets_pad)
    have "sextets_to_bytes (b64_sextets (base64_encode [a])) = [of_nat (unat a)]"
      unfolding s sextets_to_bytes.simps
      using r by (simp only: div_0 add_0_right)
    then show ?case by simp
  next
    case 4
    show ?case by (simp add: b64_sextets_Nil)
  qed
  then show ?thesis by (simp add: base64_decode_def)
qed


lemma length_base64_encode: "length (base64_encode bs) = 4 * ((length bs + 2) div 3)"
proof (induction bs rule: base64_encode.induct)
  case (1 a b c rest)
  have "(length rest + 5) div 3 = Suc ((length rest + 2) div 3)"
    by linarith
  with 1 show ?case by (simp add: add.commute)
qed simp_all

lemma js_string_less_asym: "js_string_less a b \<Longrightarrow> \<not> js_string_less b a"
  by (induction a b rule: js_string_less.induct) (auto split: if_splits)

lemma js_string_less_total: "\<not> js_string_less a b \<Longrightarrow> \<not> js_string_less b a \<Longrightarrow> a = b"
  by (induction a b rule: js_string_less.induct) (auto split: if_splits)

lemma js_index_map_upt_0: "js_index (map f [0..<10]) 0 = Some (f 0)"
  by (simp add: js_index_def)

section \<open>Facts about CryptoUtils\<close>

lemma generateKeyPair_fields:
  "publicKey (generateKeyPair P r) = base64_encode (getPublicKey P r)"
  "privateKey (generateKeyPair P r) = base64_encode r"
  by (simp_all add: generateKeyPair_def Let_def)

lemma deriveSharedSecret_encoded:
  "deriveSharedSecret P (base64_encode a) (base64_encode b) =
     bind_err (getSharedSecret P a b) (\<lambda>s. Inr (base64_encode s))"
  by (simp add: deriveSharedSecret_def base64_roundtrip)

lemma deriveSharedSecret_commute:
  assumes "x25519_commutes P" and "length ra = 32" and "length rb = 32"
  shows "deriveSharedSecret P (privateKey (generateKeyPair P ra)) (publicKey (generateKeyPair P rb)) =
         deriveSharedSecret P (privateKey (generateKeyPair P rb)) (publicKey (generateKeyPair P ra))"
  using assms
  by (simp add: generateKeyPair_def deriveSharedSecret_encoded x25519_commutes_def)

lemma combinedKeys_sym: "safetyNumber_combinedKeys k1 k2 = safetyNumber_combinedKeys k2 k1"
  using js_string_less_asym [of k1 k2] js_string_less_total [of k1 k2]
  by (auto simp: safetyNumber_combinedKeys_def)

section \<open>Facts about the small instance\<close>

lemma toy_scalar_replicate: "toy_scalar (replicate 32 x) = unat x"
  by (simp add: toy_scalar_def numeral_eq_Suc)

lemma toy_fields:
  "getPublicKey toy sk = [of_nat (toy_scalar sk * 3 mod 251)]"
  "getSharedSecret toy sk pk = Inr [of_nat (toy_scalar sk * toy_scalar pk mod 251)]"
  by (simp_all add: toy_def)

lemma toy_scalar_single: "toy_scalar [b] = unat b"
  by (simp add: toy_scalar_def)

lemma unat_toy_byte: "unat (of_nat (n mod 251) :: byte) = n mod 251"
proof -
  have "n mod 251 < 256"
    using mod_less_divisor [of 251 n] by linarith
  then show ?thesis
    by (simp add: unat_of_nat take_bit_nat_eq_self)
qed

lemma toy_commutes: "x25519_commutes toy"
proof -
  have "a * (b * 3 mod 251) mod 251 = b * (a * 3 mod 251) mod 251" for a b :: nat
  proof -
    have "a * (b * 3 mod 251) mod 251 = a * (b * 3) mod 251"
      by (rule mod_mult_right_eq)
    also have "\<dots> = b * (a * 3) mod 251"
      by (simp add: mult.left_commute)
    also have "\<dots> = b * (a * 3 mod 251) mod 251"
      by (rule mod_mult_right_eq [symmetric])
    finally show ?thesis .
  qed
  then show ?thesis
    by (simp add: x25519_commutes_def toy_def toy_scalar_def unat_toy_byte)
qed

lemma toy_roundtrip: "AES_roundtrip toy"
  by (auto simp: AES_roundtrip_def toy_def)

lemma toy_kyber_correct: "kyber_correct toy"
  by (auto simp: kyber_correct_def toy_def)

lemma rnd_lengths: "length (rnd_alice k) = 32" "length (rnd_bob k) = 32" "length rnd_eph = 32"
  by (simp_all add: rnd_alice_def rnd_bob_def rnd_eph_def)

section \<open>The claims about CryptoUtils\<close>

text \<open>
  C3.  For every two key pairs \<open>a\<close> and \<open>b\<close> produced by \<open>generateKeyPair\<close>,
  \<open>deriveSharedSecret(a.privateKey, b.publicKey)\<close> equals
  \<open>deriveSharedSecret(b.privateKey, a.publicKey)\<close>.  The curve operation is the imported
  \<open>x25519\<close>; given that it commutes on 32-byte private keys, the base64 wrapping of
  \<open>generateKeyPair\<close> and \<open>deriveSharedSecret\<close> keeps the two results equal, whether
  they are values or exceptions.
\<close>

theorem C3_deriveSharedSecret_commutes:
  assumes "x25519_commutes P" and "length ra = 32" and "length rb = 32"
  shows "deriveSharedSecret P (privateKey (generateKeyPair P ra)) (publicKey (generateKeyPair P rb)) =
         deriveSharedSecret P (privateKey (generateKeyPair P rb)) (publicKey (generateKeyPair P ra))"
  using assms by (rule deriveSharedSecret_commute)

theorem C3_witness:
  "length (rnd_alice 0) = 32 \<and> length (rnd_bob 0) = 32 \<and>
   deriveSharedSecret toy (privateKey (generateKeyPair toy (rnd_alice 0)))
     (publicKey (generateKeyPair toy (rnd_bob 0))) = Inr ''eA=='' \<and>
   deriveSharedSecret toy (privateKey (generateKeyPair toy (rnd_bob 0)))
     (publicKey (generateKeyPair toy (rnd_alice 0))) = Inr ''eA==''"
proof -
  have v: "deriveSharedSecret toy (privateKey (generateKeyPair toy (rnd_alice 0)))
     (publicKey (generateKeyPair toy (rnd_bob 0))) = Inr ''eA==''"
    unfolding generateKeyPair_fields deriveSharedSecret_encoded
    by (simp add: toy_fields toy_scalar_replicate toy_scalar_single
        rnd_alice_def rnd_bob_def bind_err_def b64_char_def char_of_eq_iff)
  show ?thesis
    using C3_deriveSharedSecret_commutes [OF toy_commutes rnd_lengths(1) rnd_lengths(2), of 0 0] v
    by (simp add: rnd_lengths)
qed

text \<open>
  C4.  For every pair of public identity keys \<open>k1\<close> and \<open>k2\<close>,
  \<open>generateSafetyNumber(k1, k2)\<close> equals \<open>generateSafetyNumber(k2, k1)\<close>; this holds for
  all strings and whatever the hash is.
\<close>

theorem C4_generateSafetyNumber_symmetric:
  "generateSafetyNumber P k1 k2 = generateSafetyNumber P k2 k1"
  by (simp add: generateSafetyNumber_def combinedKeys_sym [of k1 k2])

text \<open>
  C5.  The specification says that \<open>generateSafetyNumber\<close> places first, in the hashed
  concatenation, the key whose decoded bytes are byte-wise lexicographically smaller.  The
  code compares the two base64 strings with \<open><\<close>, and the alphabet of base64 is not in
  the order of the character codes (the digits, \<open>+\<close> and \<open>/\<close> are the sextets 52 to 63
  and have smaller codes than the letters).  For the two keys of RFC 7748 the bytes of
  \<open>rfc_key_a\<close> are the smaller ones (\<open>0x85 < 0xde\<close>), the text of \<open>rfc_key_b\<close> is the
  smaller one (\<open>3\<close> comes before \<open>h\<close>), and the code hashes the bytes of \<open>rfc_key_b\<close>
  first.
\<close>

lemma decode_rfc_key_a:
  "base64_decode rfc_key_a =
     [133, 32, 240, 9, 137, 48, 167, 84, 116, 139, 125, 220, 180, 62, 247, 90,
      13, 191, 58, 13, 38, 56, 26, 244, 235, 164, 169, 142, 170, 155, 78, 106]"
  by (simp add: rfc_key_a_def base64_decode_def b64_sextets_def b64_value_def
      List.map_filter_simps)

lemma decode_rfc_key_b:
  "base64_decode rfc_key_b =
     [222, 158, 219, 125, 123, 125, 193, 180, 211, 91, 97, 194, 236, 228, 53, 55,
      63, 131, 67, 200, 91, 120, 103, 77, 173, 252, 126, 20, 111, 136, 43, 79]"
  by (simp add: rfc_key_b_def base64_decode_def b64_sextets_def b64_value_def
      List.map_filter_simps)

lemma rfc_key_b_text_less: "js_string_less rfc_key_b rfc_key_a" "\<not> js_string_less rfc_key_a rfc_key_b"
  by (simp_all add: rfc_key_a_def rfc_key_b_def)

theorem C5_counterexample:
  "bytes_less (base64_decode rfc_key_a) (base64_decode rfc_key_b) \<and>
   safetyNumber_combinedKeys rfc_key_a rfc_key_b =
     base64_decode rfc_key_b @ base64_decode rfc_key_a \<and>
   safetyNumber_combinedKeys rfc_key_a rfc_key_b \<noteq>
     base64_decode rfc_key_a @ base64_decode rfc_key_b"
proof (intro conjI)
  show "bytes_less (base64_decode rfc_key_a) (base64_decode rfc_key_b)"
    unfolding decode_rfc_key_a decode_rfc_key_b by simp
  show "safetyNumber_combinedKeys rfc_key_a rfc_key_b =
     base64_decode rfc_key_b @ base64_decode rfc_key_a"
    by (simp add: safetyNumber_combinedKeys_def rfc_key_b_text_less)
  then show "safetyNumber_combinedKeys rfc_key_a rfc_key_b \<noteq>
     base64_decode rfc_key_a @ base64_decode rfc_key_b"
    unfolding decode_rfc_key_a decode_rfc_key_b by simp
qed

text \<open>
  C5, as the code has it.  For every pair of keys, the key placed first in the hashed
  concatenation is the one whose base64 text is the smaller in the string order of the
  language (the second is never smaller than the first); the decoded bytes of the two are
  concatenated in this order, hashed, and the first 12 characters of the base64 text of the
  digest are returned.
\<close>

theorem C5_text_order:
  "\<exists>lo hi. (lo = k1 \<and> hi = k2 \<or> lo = k2 \<and> hi = k1) \<and> \<not> js_string_less hi lo \<and>
     generateSafetyNumber P k1 k2 =
       take 12 (base64_encode (sha512 P (base64_decode lo @ base64_decode hi)))"
proof (cases "js_string_less k1 k2")
  case True
  then have "\<not> js_string_less k2 k1" by (rule js_string_less_asym)
  with True show ?thesis
    by (intro exI [of _ k1] exI [of _ k2])
      (simp add: generateSafetyNumber_def safetyNumber_combinedKeys_def)
next
  case False
  then show ?thesis
    by (intro exI [of _ k2] exI [of _ k1])
      (simp add: generateSafetyNumber_def safetyNumber_combinedKeys_def)
qed

section \<open>Facts about the two classes\<close>

lemma bind_err_Inr: "bind_err r f = Inr v \<longleftrightarrow> (\<exists>x. r = Inr x \<and> f x = Inr v)"
  by (cases r) (simp_all add: bind_err_def)

lemma bind_err_Inr_simp: "bind_err (Inr x) f = f x"
  by (simp add: bind_err_def)

lemma bind_err_Inl_simp: "bind_err (Inl e) f = Inl e"
  by (simp add: bind_err_def)

lemma X3DH_init_fields:
  "identityKey (X3DH_initializeSession P rnd) = generateKeyPair P (rnd 0)"
  "preKeys (X3DH_initializeSession P rnd) = map (\<lambda>k. generateKeyPair P (rnd (Suc k))) [0..<10]"
  "privateKey (signedPreKey (X3DH_initializeSession P rnd)) = privateKey (generateKeyPair P (rnd 11))"
  "publicKey (signedPreKey (X3DH_initializeSession P rnd)) = publicKey (generateKeyPair P (rnd 11))"
  by (simp_all add: X3DH_initializeSession_def generateSignedPreKey_def generatePreKey_def Let_def)

lemma PQXDH_init_fields:
  "identityKey (PQXDH_initializeSession P rnd seed) = generateKeyPair P (rnd 0)"
  "preKeys (PQXDH_initializeSession P rnd seed) = map (\<lambda>k. generateKeyPair P (rnd (Suc k))) [0..<10]"
  "privateKey (signedPreKey (PQXDH_initializeSession P rnd seed)) = privateKey (generateKeyPair P (rnd 11))"
  "publicKey (signedPreKey (PQXDH_initializeSession P rnd seed)) = publicKey (generateKeyPair P (rnd 11))"
  "kyber_publicKey (kyberKeyPair (PQXDH_initializeSession P rnd seed)) = fst (kyber_generateKeyPair P seed)"
  "kyber_privateKey (kyberKeyPair (PQXDH_initializeSession P rnd seed)) = snd (kyber_generateKeyPair P seed)"
  by (simp_all add: PQXDH_initializeSession_def generateSignedPreKey_def generatePreKey_def Let_def
      split: prod.splits)

lemma X3DH_bundle_fields:
  "bundle_identityKey (fst (X3DH_getPublicBundle S)) = publicKey (identityKey S)"
  "bundle_preKeys (fst (X3DH_getPublicBundle S)) = map publicKey (preKeys S)"
  "spk_publicKey (bundle_signedPreKey (fst (X3DH_getPublicBundle S))) = publicKey (signedPreKey S)"
  "spk_signature (bundle_signedPreKey (fst (X3DH_getPublicBundle S))) = signature (signedPreKey S)"
  by (simp_all add: X3DH_getPublicBundle_def)

lemma PQXDH_bundle_fields:
  "bundle_identityKey (fst (PQXDH_getPublicBundle S)) = publicKey (identityKey S)"
  "bundle_preKeys (fst (PQXDH_getPublicBundle S)) = map publicKey (preKeys S)"
  "spk_publicKey (bundle_signedPreKey (fst (PQXDH_getPublicBundle S))) = publicKey (signedPreKey S)"
  "spk_signature (bundle_signedPreKey (fst (PQXDH_getPublicBundle S))) = signature (signedPreKey S)"
  "bundle_kyberPublicKey (fst (PQXDH_getPublicBundle S)) = kyber_publicKey (kyberKeyPair S)"
  by (simp_all add: PQXDH_getPublicBundle_def)

lemma X3DH_secrets_agree:
  assumes dh: "x25519_commutes P"
    and lenA: "\<forall>k. length (rndA k) = 32" and lenB: "\<forall>k. length (rndB k) = 32"
    and len: "length rnd = 32"
  shows "X3DH_encrypt_sharedSecret P (X3DH_initializeSession P rndA) (generateKeyPair P rnd)
           (fst (X3DH_getPublicBundle (X3DH_initializeSession P rndB))) =
         X3DH_decrypt_sharedSecret P (X3DH_initializeSession P rndB)
           (fst (X3DH_getPublicBundle (X3DH_initializeSession P rndA)))
           (publicKey (generateKeyPair P rnd)) 0"
proof -
  let ?g = "generateKeyPair P"
  have d1: "deriveSharedSecret P (privateKey (?g (rndA 0))) (publicKey (?g (rndB 0))) =
            deriveSharedSecret P (privateKey (?g (rndB 0))) (publicKey (?g (rndA 0)))"
    using dh lenA lenB by (intro deriveSharedSecret_commute) simp_all
  have d2: "deriveSharedSecret P (privateKey (?g rnd)) (publicKey (?g (rndB k))) =
            deriveSharedSecret P (privateKey (?g (rndB k))) (publicKey (?g rnd))" for k
    using dh len lenB by (intro deriveSharedSecret_commute) simp_all
  show ?thesis
    unfolding X3DH_encrypt_sharedSecret_def X3DH_decrypt_sharedSecret_def
      X3DH_init_fields X3DH_bundle_fields
    by (simp add: js_index_map_upt_0 d1 d2 del: upt_Suc)
qed

lemma PQXDH_secrets_agree:
  assumes dh: "x25519_commutes P" and kem: "kyber_correct P"
    and lenA: "\<forall>k. length (rndA k) = 32" and lenB: "\<forall>k. length (rndB k) = 32"
    and len: "length rnd = 32"
    and enc: "PQXDH_encrypt_sharedSecret P coins (PQXDH_initializeSession P rndA seedA)
           (generateKeyPair P rnd)
           (fst (PQXDH_getPublicBundle (PQXDH_initializeSession P rndB seedB))) = Inr (ct, s)"
  shows "PQXDH_decrypt_sharedSecret P (PQXDH_initializeSession P rndB seedB)
           (fst (PQXDH_getPublicBundle (PQXDH_initializeSession P rndA seedA)))
           (publicKey (generateKeyPair P rnd)) 0 ct = Inr s"
proof -
  let ?g = "generateKeyPair P"
  have d1: "deriveSharedSecret P (privateKey (?g (rndA 0))) (publicKey (?g (rndB 0))) =
            deriveSharedSecret P (privateKey (?g (rndB 0))) (publicKey (?g (rndA 0)))"
    using dh lenA lenB by (intro deriveSharedSecret_commute) simp_all
  have d2: "deriveSharedSecret P (privateKey (?g rnd)) (publicKey (?g (rndB k))) =
            deriveSharedSecret P (privateKey (?g (rndB k))) (publicKey (?g rnd))" for k
    using dh len lenB by (intro deriveSharedSecret_commute) simp_all
  from enc obtain dh1 dh2 dh3 dh4 ss where
    e: "deriveSharedSecret P (privateKey (?g (rndB 0))) (publicKey (?g (rndA 0))) = Inr dh1"
       "deriveSharedSecret P (privateKey (?g (rndB 0))) (publicKey (?g rnd)) = Inr dh2"
       "deriveSharedSecret P (privateKey (?g (rndB (Suc 0)))) (publicKey (?g rnd)) = Inr dh3"
       "deriveSharedSecret P (privateKey (?g (rndB 11))) (publicKey (?g rnd)) = Inr dh4"
       "kyber_encap P coins (fst (kyber_generateKeyPair P seedB)) = Inr (ct, ss)"
       "s = combineSharedSecrets P [dh1, dh2, dh3, dh4, base64_encode ss]"
    unfolding PQXDH_encrypt_sharedSecret_def PQXDH_init_fields PQXDH_bundle_fields
    by (auto simp: js_index_map_upt_0 d1 d2 bind_err_Inr simp del: upt_Suc)
  from kem e(5) have "kyber_decap P ct (snd (kyber_generateKeyPair P seedB)) = Inr ss"
    unfolding kyber_correct_def by blast
  with e show ?thesis
    unfolding PQXDH_decrypt_sharedSecret_def PQXDH_init_fields PQXDH_bundle_fields
    by (simp add: js_index_map_upt_0 bind_err_Inr_simp del: upt_Suc)
qed

lemma decrypt_encrypt:
  assumes "AES_roundtrip P" and "encrypt P salt m s = Inr c"
  shows "decrypt P c s = Inr m"
  using assms by (auto simp: AES_roundtrip_def encrypt_def decrypt_def Let_def)

lemma X3DH_encrypt_sharedSecret_Inr:
  "X3DH_encrypt_sharedSecret P S eph B = Inr s \<longleftrightarrow>
     (\<exists>dh1 dh2 dh3 dh4 pk0.
        js_index (bundle_preKeys B) 0 = Some pk0 \<and>
        deriveSharedSecret P (privateKey (identityKey S)) (bundle_identityKey B) = Inr dh1 \<and>
        deriveSharedSecret P (privateKey eph) (bundle_identityKey B) = Inr dh2 \<and>
        deriveSharedSecret P (privateKey eph) pk0 = Inr dh3 \<and>
        deriveSharedSecret P (privateKey eph) (spk_publicKey (bundle_signedPreKey B)) = Inr dh4 \<and>
        s = combineSharedSecrets P [dh1, dh2, dh3, dh4])"
  by (auto simp: X3DH_encrypt_sharedSecret_def bind_err_Inr split: option.splits)

lemma PQXDH_encrypt_sharedSecret_Inr:
  "PQXDH_encrypt_sharedSecret P coins S eph B = Inr (ct, s) \<longleftrightarrow>
     (\<exists>dh1 dh2 dh3 dh4 pk0 ss.
        js_index (bundle_preKeys B) 0 = Some pk0 \<and>
        deriveSharedSecret P (privateKey (identityKey S)) (bundle_identityKey B) = Inr dh1 \<and>
        deriveSharedSecret P (privateKey eph) (bundle_identityKey B) = Inr dh2 \<and>
        deriveSharedSecret P (privateKey eph) pk0 = Inr dh3 \<and>
        deriveSharedSecret P (privateKey eph) (spk_publicKey (bundle_signedPreKey B)) = Inr dh4 \<and>
        kyber_encap P coins (bundle_kyberPublicKey B) = Inr (ct, ss) \<and>
        s = combineSharedSecrets P [dh1, dh2, dh3, dh4, base64_encode ss])"
  by (auto simp: PQXDH_encrypt_sharedSecret_def bind_err_Inr split: option.splits)

lemma X3DH_encryptMessage_Inr:
  "fst (X3DH_encryptMessage P rnd salt S B m) = Inr art \<longleftrightarrow>
     (\<exists>s c. X3DH_encrypt_sharedSecret P S (generateKeyPair P rnd) B = Inr s \<and>
        AES_encrypt P salt m (deriveKey P s) = Inr c \<and>
        art = \<lparr>encryptedMessage = c, ephemeralKey = publicKey (generateKeyPair P rnd),
                usedPreKeyIndex = 0\<rparr>)"
  by (auto simp: X3DH_encryptMessage_def Let_def bind_err_Inr encrypt_def)

lemma PQXDH_encryptMessage_Inr:
  "fst (PQXDH_encryptMessage P rnd coins salt S B m) = Inr art \<longleftrightarrow>
     (\<exists>ct s c. PQXDH_encrypt_sharedSecret P coins S (generateKeyPair P rnd) B = Inr (ct, s) \<and>
        AES_encrypt P salt m (deriveKey P s) = Inr c \<and>
        art = \<lparr>encryptedMessage = c, ephemeralKey = publicKey (generateKeyPair P rnd),
                usedPreKeyIndex = 0, kyberCiphertext = ct\<rparr>)"
  by (auto simp: PQXDH_encryptMessage_def Let_def bind_err_Inr encrypt_def split: prod.splits)

lemma X3DH_encrypt_sharedSecret_cong:
  assumes "bundle_identityKey B2 = bundle_identityKey B"
    and "spk_publicKey (bundle_signedPreKey B2) = spk_publicKey (bundle_signedPreKey B)"
    and "js_index (bundle_preKeys B2) 0 = js_index (bundle_preKeys B) 0"
  shows "X3DH_encrypt_sharedSecret P S eph B2 = X3DH_encrypt_sharedSecret P S eph B"
  using assms by (simp add: X3DH_encrypt_sharedSecret_def)

lemma PQXDH_encrypt_sharedSecret_cong:
  assumes "bundle_identityKey B2 = bundle_identityKey B"
    and "spk_publicKey (bundle_signedPreKey B2) = spk_publicKey (bundle_signedPreKey B)"
    and "js_index (bundle_preKeys B2) 0 = js_index (bundle_preKeys B) 0"
    and "bundle_kyberPublicKey B2 = bundle_kyberPublicKey B"
  shows "PQXDH_encrypt_sharedSecret P coins S eph B2 = PQXDH_encrypt_sharedSecret P coins S eph B"
  using assms by (simp add: PQXDH_encrypt_sharedSecret_def)

lemma js_index_out_of_range:
  "length xs = 10 \<Longrightarrow> idx < 0 \<or> 9 < idx \<Longrightarrow> js_index xs idx = None"
  by (auto simp: js_index_def)

lemma X3DH_decrypt_undefined_prekey:
  assumes "js_index (preKeys S) idx = None"
  shows "\<exists>e. X3DH_decrypt_sharedSecret P S B ek idx = Inl e"
  by (auto simp: X3DH_decrypt_sharedSecret_def assms bind_err_def split: sum.splits)

lemma PQXDH_decrypt_undefined_prekey:
  assumes "js_index (preKeys S) idx = None"
  shows "\<exists>e. PQXDH_decrypt_sharedSecret P S B ek idx ct = Inl e"
  by (auto simp: PQXDH_decrypt_sharedSecret_def assms bind_err_def split: sum.splits)

lemma X3DH_init_length: "length (preKeys (X3DH_initializeSession P rnd)) = 10"
  by (simp add: X3DH_init_fields del: upt_Suc)

lemma PQXDH_init_length: "length (preKeys (PQXDH_initializeSession P rnd seed)) = 10"
  by (simp add: PQXDH_init_fields del: upt_Suc)

section \<open>The example run on the small instance\<close>

lemma toy_sha512: "sha512 toy bs = [of_nat (length bs), foldr (+) bs 0]"
  by (simp add: toy_def)

lemma toy_AES:
  "AES_encrypt toy salt m k = Inr (k @ m)"
  "AES_decrypt toy c k = (if take (length k) c = k then Inr (drop (length k) c) else Inl LibraryError)"
  by (simp_all add: toy_def)

lemma toy_kyber:
  "kyber_generateKeyPair toy seed = (map (\<lambda>b. b + 1) seed, seed)"
  "kyber_encap toy coins pk = Inr (coins, coins @ pk)"
  "kyber_decap toy ct sk = Inr (ct @ map (\<lambda>b. b + 1) sk)"
  by (simp_all add: toy_def)

lemma X3DH_example_secret:
  "X3DH_encrypt_sharedSecret toy alice (generateKeyPair toy rnd_eph) (fst (X3DH_getPublicBundle bob)) = Inr ''EMA=''"
  unfolding X3DH_encrypt_sharedSecret_def alice_def bob_def X3DH_init_fields X3DH_bundle_fields
    generateKeyPair_fields
  apply (simp add: js_index_map_upt_0 generateKeyPair_fields deriveSharedSecret_encoded
      del: upt_Suc base64_encode.simps)
  apply (simp add: toy_fields toy_scalar_replicate toy_scalar_single rnd_alice_def rnd_bob_def rnd_eph_def
      bind_err_Inr_simp combineSharedSecrets_def base64_roundtrip toy_sha512 utf8_bytes_def APP_INFO_def
      del: base64_encode.simps)
  apply (simp add: b64_char_def char_of_eq_iff)
  done


lemma PQXDH_example_secret:
  "PQXDH_encrypt_sharedSecret toy [9, 9] pq_alice (generateKeyPair toy rnd_eph)
     (fst (PQXDH_getPublicBundle pq_bob)) = Inr ([9, 9], ''FeQ='')"
  unfolding PQXDH_encrypt_sharedSecret_def pq_alice_def pq_bob_def PQXDH_init_fields PQXDH_bundle_fields
    generateKeyPair_fields
  apply (simp add: js_index_map_upt_0 generateKeyPair_fields deriveSharedSecret_encoded
      del: upt_Suc base64_encode.simps)
  apply (simp add: toy_fields toy_scalar_replicate toy_scalar_single rnd_alice_def rnd_bob_def rnd_eph_def
      bind_err_Inr_simp combineSharedSecrets_def base64_roundtrip toy_sha512 toy_kyber utf8_bytes_def
      APP_INFO_def del: base64_encode.simps)
  apply (simp add: b64_char_def char_of_eq_iff)
  done

lemma toy_deriveKey_examples:
  "deriveKey toy ''EMA='' = ''DtE=''" "deriveKey toy ''FeQ='' = ''Dvo=''"
  by (simp_all add: deriveKey_def toy_sha512 utf8_bytes_def APP_INFO_def base64_decode_def
      b64_sextets_def b64_value_def List.map_filter_simps b64_char_def char_of_eq_iff)

lemma example_eph_public: "publicKey (generateKeyPair toy rnd_eph) = ''Dw==''"
  by (simp add: generateKeyPair_fields toy_fields toy_scalar_replicate rnd_eph_def b64_char_def
      char_of_eq_iff)

lemma X3DH_example_encrypt:
  "fst (X3DH_encryptMessage toy rnd_eph [] alice (fst (X3DH_getPublicBundle bob)) ''hello'') =
     Inr \<lparr>encryptedMessage = ''DtE=hello'', ephemeralKey = ''Dw=='', usedPreKeyIndex = 0\<rparr>"
  by (simp add: X3DH_encryptMessage_def Let_def X3DH_example_secret bind_err_Inr_simp encrypt_def
      toy_deriveKey_examples toy_AES example_eph_public)

lemma PQXDH_example_encrypt:
  "fst (PQXDH_encryptMessage toy rnd_eph [9, 9] [] pq_alice (fst (PQXDH_getPublicBundle pq_bob)) ''hello'') =
     Inr \<lparr>encryptedMessage = ''Dvo=hello'', ephemeralKey = ''Dw=='', usedPreKeyIndex = 0,
          kyberCiphertext = [9, 9]\<rparr>"
  by (simp add: PQXDH_encryptMessage_def Let_def PQXDH_example_secret bind_err_Inr_simp encrypt_def
      toy_deriveKey_examples toy_AES example_eph_public)

lemma bob_first_prekey:
  "js_index (bundle_preKeys (fst (X3DH_getPublicBundle bob))) 0 = Some ''Pw==''"
  "js_index (bundle_preKeys (fst (PQXDH_getPublicBundle pq_bob))) 0 = Some ''Pw==''"
  unfolding bob_def pq_bob_def X3DH_bundle_fields PQXDH_bundle_fields X3DH_init_fields
    PQXDH_init_fields
  by (simp_all add: js_index_map_upt_0 generateKeyPair_fields toy_fields toy_scalar_replicate
      rnd_bob_def b64_char_def char_of_eq_iff del: upt_Suc)

lemma alice_private_differs: "privateKey (identityKey alice) \<noteq> ''AAAA''"
proof
  assume "privateKey (identityKey alice) = ''AAAA''"
  then have "length (privateKey (identityKey alice)) = length ''AAAA''"
    by simp
  then show False
    by (simp add: alice_def X3DH_init_fields generateKeyPair_fields length_base64_encode
        rnd_lengths)
qed

lemma private_key_in_bundle:
  assumes "rnd 0 = getPublicKey P (rnd (Suc 0))"
  shows "js_index (bundle_preKeys (fst (X3DH_getPublicBundle (X3DH_initializeSession P rnd)))) 0 =
           Some (privateKey (identityKey (X3DH_initializeSession P rnd)))"
    and "js_index (bundle_preKeys (fst (PQXDH_getPublicBundle (PQXDH_initializeSession P rnd seed)))) 0 =
           Some (privateKey (identityKey (PQXDH_initializeSession P rnd seed)))"
  unfolding X3DH_bundle_fields PQXDH_bundle_fields X3DH_init_fields PQXDH_init_fields
  by (simp_all add: js_index_map_upt_0 generateKeyPair_fields assms del: upt_Suc)

lemma encode_rfc_public_a: "base64_encode rfc_public_a = rfc_key_a"
  by (simp add: rfc_public_a_def rfc_key_a_def b64_char_def char_of_eq_iff)

lemma rnd_coincide_values:
  "rnd_coincide 0 = rfc_public_a"
  "rnd_coincide (Suc 0) = rfc_private_a"
  "getPublicKey curve_at_rfc_pair rfc_private_a = rfc_public_a"
  by (simp_all add: rnd_coincide_def curve_at_rfc_pair_def)

lemma rnd_coincide_length: "length (rnd_coincide k) = 32"
  by (simp add: rnd_coincide_def rfc_public_a_def rfc_private_a_def)

section \<open>The claims about the two classes\<close>

text \<open>
  C1.  Two parties are initialised by the same implementation (\<open>initializeSession\<close> on
  the random bytes \<open>rndA\<close> and \<open>rndB\<close>).  If A's \<open>encryptMessage\<close> on B's public bundle
  and the message \<open>m\<close> returns an artifact, then B's \<open>decryptMessage\<close> on A's public
  bundle and the fields of the artifact returns exactly \<open>m\<close>, and the session secret that
  B computes is the one that A computed.  This holds for the classical and for the hybrid
  class, given that the curve commutes, that the cipher decrypts what it encrypted and
  that the KEM is correct.
\<close>

theorem C1_agreement:
  assumes dh: "x25519_commutes P" and aes: "AES_roundtrip P" and kem: "kyber_correct P"
    and lenA: "\<forall>k. length (rndA k) = 32" and lenB: "\<forall>k. length (rndB k) = 32"
    and len: "length rnd = 32"
  shows
    "(fst (X3DH_encryptMessage P rnd salt (X3DH_initializeSession P rndA)
         (fst (X3DH_getPublicBundle (X3DH_initializeSession P rndB))) m) = Inr art \<longrightarrow>
      fst (X3DH_decryptMessage P (X3DH_initializeSession P rndB)
         (fst (X3DH_getPublicBundle (X3DH_initializeSession P rndA)))
         (encryptedMessage art) (ephemeralKey art) (usedPreKeyIndex art)) = Inr m \<and>
      (\<exists>secret.
         X3DH_encrypt_sharedSecret P (X3DH_initializeSession P rndA) (generateKeyPair P rnd)
           (fst (X3DH_getPublicBundle (X3DH_initializeSession P rndB))) = Inr secret \<and>
         X3DH_decrypt_sharedSecret P (X3DH_initializeSession P rndB)
           (fst (X3DH_getPublicBundle (X3DH_initializeSession P rndA)))
           (ephemeralKey art) (usedPreKeyIndex art) = Inr secret)) \<and>
     (fst (PQXDH_encryptMessage P rnd coins salt (PQXDH_initializeSession P rndA seedA)
         (fst (PQXDH_getPublicBundle (PQXDH_initializeSession P rndB seedB))) m) = Inr qart \<longrightarrow>
      fst (PQXDH_decryptMessage P (PQXDH_initializeSession P rndB seedB)
         (fst (PQXDH_getPublicBundle (PQXDH_initializeSession P rndA seedA)))
         (encryptedMessage qart) (ephemeralKey qart) (usedPreKeyIndex qart)
         (kyberCiphertext qart)) = Inr m \<and>
      (\<exists>secret.
         PQXDH_encrypt_sharedSecret P coins (PQXDH_initializeSession P rndA seedA)
           (generateKeyPair P rnd)
           (fst (PQXDH_getPublicBundle (PQXDH_initializeSession P rndB seedB))) =
           Inr (kyberCiphertext qart, secret) \<and>
         PQXDH_decrypt_sharedSecret P (PQXDH_initializeSession P rndB seedB)
           (fst (PQXDH_getPublicBundle (PQXDH_initializeSession P rndA seedA)))
           (ephemeralKey qart) (usedPreKeyIndex qart) (kyberCiphertext qart) = Inr secret))"
proof (intro conjI impI)
  let ?A = "X3DH_initializeSession P rndA" and ?B = "X3DH_initializeSession P rndB"
  let ?eph = "generateKeyPair P rnd"
  assume "fst (X3DH_encryptMessage P rnd salt ?A (fst (X3DH_getPublicBundle ?B)) m) = Inr art"
  then obtain s c where
    s: "X3DH_encrypt_sharedSecret P ?A ?eph (fst (X3DH_getPublicBundle ?B)) = Inr s"
    and c: "encrypt P salt m s = Inr c"
    and art: "art = \<lparr>encryptedMessage = c, ephemeralKey = publicKey ?eph, usedPreKeyIndex = 0\<rparr>"
    by (auto simp: X3DH_encryptMessage_def Let_def bind_err_Inr)
  have s': "X3DH_decrypt_sharedSecret P ?B (fst (X3DH_getPublicBundle ?A)) (publicKey ?eph) 0 = Inr s"
    using X3DH_secrets_agree [OF dh lenA lenB len] s by simp
  show "fst (X3DH_decryptMessage P ?B (fst (X3DH_getPublicBundle ?A))
         (encryptedMessage art) (ephemeralKey art) (usedPreKeyIndex art)) = Inr m"
    using s' decrypt_encrypt [OF aes c]
    by (simp add: X3DH_decryptMessage_def art bind_err_Inr_simp)
  show "\<exists>secret.
         X3DH_encrypt_sharedSecret P ?A ?eph (fst (X3DH_getPublicBundle ?B)) = Inr secret \<and>
         X3DH_decrypt_sharedSecret P ?B (fst (X3DH_getPublicBundle ?A))
           (ephemeralKey art) (usedPreKeyIndex art) = Inr secret"
    using s s' by (simp add: art)
next
  let ?A = "PQXDH_initializeSession P rndA seedA" and ?B = "PQXDH_initializeSession P rndB seedB"
  let ?eph = "generateKeyPair P rnd"
  assume "fst (PQXDH_encryptMessage P rnd coins salt ?A (fst (PQXDH_getPublicBundle ?B)) m) = Inr qart"
  then obtain ct s c where
    s: "PQXDH_encrypt_sharedSecret P coins ?A ?eph (fst (PQXDH_getPublicBundle ?B)) = Inr (ct, s)"
    and c: "encrypt P salt m s = Inr c"
    and art: "qart = \<lparr>encryptedMessage = c, ephemeralKey = publicKey ?eph, usedPreKeyIndex = 0,
        kyberCiphertext = ct\<rparr>"
    by (auto simp: PQXDH_encryptMessage_def Let_def bind_err_Inr split: prod.splits)
  have s': "PQXDH_decrypt_sharedSecret P ?B (fst (PQXDH_getPublicBundle ?A)) (publicKey ?eph) 0 ct = Inr s"
    using PQXDH_secrets_agree [OF dh kem lenA lenB len s] .
  show "fst (PQXDH_decryptMessage P ?B (fst (PQXDH_getPublicBundle ?A))
         (encryptedMessage qart) (ephemeralKey qart) (usedPreKeyIndex qart)
         (kyberCiphertext qart)) = Inr m"
    using s' decrypt_encrypt [OF aes c]
    by (simp add: PQXDH_decryptMessage_def art bind_err_Inr_simp)
  show "\<exists>secret.
         PQXDH_encrypt_sharedSecret P coins ?A ?eph (fst (PQXDH_getPublicBundle ?B)) =
           Inr (kyberCiphertext qart, secret) \<and>
         PQXDH_decrypt_sharedSecret P ?B (fst (PQXDH_getPublicBundle ?A))
           (ephemeralKey qart) (usedPreKeyIndex qart) (kyberCiphertext qart) = Inr secret"
    using s s' by (simp add: art)
qed

theorem C1_witness:
  "fst (X3DH_encryptMessage toy rnd_eph [] alice (fst (X3DH_getPublicBundle bob)) ''hello'') =
     Inr \<lparr>encryptedMessage = ''DtE=hello'', ephemeralKey = ''Dw=='', usedPreKeyIndex = 0\<rparr> \<and>
   fst (X3DH_decryptMessage toy bob (fst (X3DH_getPublicBundle alice)) ''DtE=hello'' ''Dw=='' 0) =
     Inr ''hello'' \<and>
   fst (PQXDH_encryptMessage toy rnd_eph [9, 9] [] pq_alice (fst (PQXDH_getPublicBundle pq_bob)) ''hello'') =
     Inr \<lparr>encryptedMessage = ''Dvo=hello'', ephemeralKey = ''Dw=='', usedPreKeyIndex = 0,
          kyberCiphertext = [9, 9]\<rparr> \<and>
   fst (PQXDH_decryptMessage toy pq_bob (fst (PQXDH_getPublicBundle pq_alice)) ''Dvo=hello'' ''Dw=='' 0
     [9, 9]) = Inr ''hello''"
proof -
  have lens: "\<forall>k. length (rnd_alice k) = 32" "\<forall>k. length (rnd_bob k) = 32"
    by (simp_all add: rnd_lengths)
  note agree = C1_agreement [OF toy_commutes toy_roundtrip toy_kyber_correct lens rnd_lengths(3),
      where salt = "[]" and m = "''hello''" and coins = "[9, 9]" and seedA = "[1, 2, 3]"
        and seedB = "[4, 5, 6]"
        and art = "\<lparr>encryptedMessage = ''DtE=hello'', ephemeralKey = ''Dw=='', usedPreKeyIndex = 0\<rparr>"
        and qart = "\<lparr>encryptedMessage = ''Dvo=hello'', ephemeralKey = ''Dw=='', usedPreKeyIndex = 0,
          kyberCiphertext = [9, 9]\<rparr>"]
  show ?thesis
    using agree X3DH_example_encrypt PQXDH_example_encrypt
    by (simp add: alice_def bob_def pq_alice_def pq_bob_def)
qed

text \<open>
  C2.  Whenever \<open>encryptMessage\<close> returns, the passphrase under which the cipher
  encrypts the plaintext is \<open>deriveKey\<close> of \<open>combineSharedSecrets\<close> applied to the list
  of \<open>deriveSharedSecret(S.identityKey.privateKey, B.identityKey)\<close>,
  \<open>deriveSharedSecret(eph.privateKey, B.identityKey)\<close>,
  \<open>deriveSharedSecret(eph.privateKey, B.preKeys[0])\<close> and
  \<open>deriveSharedSecret(eph.privateKey, B.signedPreKey.publicKey)\<close>, in this order, where
  \<open>eph\<close> is the key pair generated at the start of the call and whose public key is
  returned; the hybrid class appends the base64 text of the encapsulated secret as the
  fifth element, and returns the ciphertext of that encapsulation.
\<close>

theorem C2_encryption_key:
  "(fst (X3DH_encryptMessage P rnd salt S B m) = Inr art \<longrightarrow>
      (\<exists>dh1 dh2 dh3 dh4 pk0.
         js_index (bundle_preKeys B) 0 = Some pk0 \<and>
         deriveSharedSecret P (privateKey (identityKey S)) (bundle_identityKey B) = Inr dh1 \<and>
         deriveSharedSecret P (privateKey (generateKeyPair P rnd)) (bundle_identityKey B) = Inr dh2 \<and>
         deriveSharedSecret P (privateKey (generateKeyPair P rnd)) pk0 = Inr dh3 \<and>
         deriveSharedSecret P (privateKey (generateKeyPair P rnd))
           (spk_publicKey (bundle_signedPreKey B)) = Inr dh4 \<and>
         AES_encrypt P salt m (deriveKey P (combineSharedSecrets P [dh1, dh2, dh3, dh4])) =
           Inr (encryptedMessage art) \<and>
         ephemeralKey art = publicKey (generateKeyPair P rnd))) \<and>
   (fst (PQXDH_encryptMessage P rnd coins salt S' B' m) = Inr qart \<longrightarrow>
      (\<exists>dh1 dh2 dh3 dh4 pk0 ss.
         js_index (bundle_preKeys B') 0 = Some pk0 \<and>
         deriveSharedSecret P (privateKey (identityKey S')) (bundle_identityKey B') = Inr dh1 \<and>
         deriveSharedSecret P (privateKey (generateKeyPair P rnd)) (bundle_identityKey B') = Inr dh2 \<and>
         deriveSharedSecret P (privateKey (generateKeyPair P rnd)) pk0 = Inr dh3 \<and>
         deriveSharedSecret P (privateKey (generateKeyPair P rnd))
           (spk_publicKey (bundle_signedPreKey B')) = Inr dh4 \<and>
         kyber_encap P coins (bundle_kyberPublicKey B') = Inr (kyberCiphertext qart, ss) \<and>
         AES_encrypt P salt m
           (deriveKey P (combineSharedSecrets P [dh1, dh2, dh3, dh4, base64_encode ss])) =
           Inr (encryptedMessage qart) \<and>
         ephemeralKey qart = publicKey (generateKeyPair P rnd)))"
proof (intro conjI impI)
  assume "fst (X3DH_encryptMessage P rnd salt S B m) = Inr art"
  then obtain s c where
    s: "X3DH_encrypt_sharedSecret P S (generateKeyPair P rnd) B = Inr s"
    and c: "AES_encrypt P salt m (deriveKey P s) = Inr c"
    and art: "art = \<lparr>encryptedMessage = c, ephemeralKey = publicKey (generateKeyPair P rnd),
                usedPreKeyIndex = 0\<rparr>"
    unfolding X3DH_encryptMessage_Inr by blast
  from s [unfolded X3DH_encrypt_sharedSecret_Inr] c art
  show "\<exists>dh1 dh2 dh3 dh4 pk0.
         js_index (bundle_preKeys B) 0 = Some pk0 \<and>
         deriveSharedSecret P (privateKey (identityKey S)) (bundle_identityKey B) = Inr dh1 \<and>
         deriveSharedSecret P (privateKey (generateKeyPair P rnd)) (bundle_identityKey B) = Inr dh2 \<and>
         deriveSharedSecret P (privateKey (generateKeyPair P rnd)) pk0 = Inr dh3 \<and>
         deriveSharedSecret P (privateKey (generateKeyPair P rnd))
           (spk_publicKey (bundle_signedPreKey B)) = Inr dh4 \<and>
         AES_encrypt P salt m (deriveKey P (combineSharedSecrets P [dh1, dh2, dh3, dh4])) =
           Inr (encryptedMessage art) \<and>
         ephemeralKey art = publicKey (generateKeyPair P rnd)"
    by auto
next
  assume "fst (PQXDH_encryptMessage P rnd coins salt S' B' m) = Inr qart"
  then obtain ct s c where
    s: "PQXDH_encrypt_sharedSecret P coins S' (generateKeyPair P rnd) B' = Inr (ct, s)"
    and c: "AES_encrypt P salt m (deriveKey P s) = Inr c"
    and art: "qart = \<lparr>encryptedMessage = c, ephemeralKey = publicKey (generateKeyPair P rnd),
                usedPreKeyIndex = 0, kyberCiphertext = ct\<rparr>"
    unfolding PQXDH_encryptMessage_Inr by blast
  from s [unfolded PQXDH_encrypt_sharedSecret_Inr] c art
  show "\<exists>dh1 dh2 dh3 dh4 pk0 ss.
         js_index (bundle_preKeys B') 0 = Some pk0 \<and>
         deriveSharedSecret P (privateKey (identityKey S')) (bundle_identityKey B') = Inr dh1 \<and>
         deriveSharedSecret P (privateKey (generateKeyPair P rnd)) (bundle_identityKey B') = Inr dh2 \<and>
         deriveSharedSecret P (privateKey (generateKeyPair P rnd)) pk0 = Inr dh3 \<and>
         deriveSharedSecret P (privateKey (generateKeyPair P rnd))
           (spk_publicKey (bundle_signedPreKey B')) = Inr dh4 \<and>
         kyber_encap P coins (bundle_kyberPublicKey B') = Inr (kyberCiphertext qart, ss) \<and>
         AES_encrypt P salt m
           (deriveKey P (combineSharedSecrets P [dh1, dh2, dh3, dh4, base64_encode ss])) =
           Inr (encryptedMessage qart) \<and>
         ephemeralKey qart = publicKey (generateKeyPair P rnd)"
    by auto
qed

theorem C2_witness:
  "fst (X3DH_encryptMessage toy rnd_eph [] alice (fst (X3DH_getPublicBundle bob)) ''hello'') = Inr example_message \<and>
   (\<exists>dh1 dh2 dh3 dh4 pk0.
         js_index (bundle_preKeys (fst (X3DH_getPublicBundle bob))) 0 = Some pk0 \<and>
         deriveSharedSecret toy (privateKey (identityKey alice)) (bundle_identityKey (fst (X3DH_getPublicBundle bob))) = Inr dh1 \<and>
         deriveSharedSecret toy (privateKey (generateKeyPair toy rnd_eph)) (bundle_identityKey (fst (X3DH_getPublicBundle bob))) = Inr dh2 \<and>
         deriveSharedSecret toy (privateKey (generateKeyPair toy rnd_eph)) pk0 = Inr dh3 \<and>
         deriveSharedSecret toy (privateKey (generateKeyPair toy rnd_eph))
           (spk_publicKey (bundle_signedPreKey (fst (X3DH_getPublicBundle bob)))) = Inr dh4 \<and>
         AES_encrypt toy [] ''hello'' (deriveKey toy (combineSharedSecrets toy [dh1, dh2, dh3, dh4])) =
           Inr (encryptedMessage example_message) \<and>
         ephemeralKey example_message = publicKey (generateKeyPair toy rnd_eph)) \<and>
   fst (PQXDH_encryptMessage toy rnd_eph [9, 9] [] pq_alice (fst (PQXDH_getPublicBundle pq_bob)) ''hello'') = Inr pq_example_message \<and>
   (\<exists>dh1 dh2 dh3 dh4 pk0 ss.
         js_index (bundle_preKeys (fst (PQXDH_getPublicBundle pq_bob))) 0 = Some pk0 \<and>
         deriveSharedSecret toy (privateKey (identityKey pq_alice)) (bundle_identityKey (fst (PQXDH_getPublicBundle pq_bob))) = Inr dh1 \<and>
         deriveSharedSecret toy (privateKey (generateKeyPair toy rnd_eph)) (bundle_identityKey (fst (PQXDH_getPublicBundle pq_bob))) = Inr dh2 \<and>
         deriveSharedSecret toy (privateKey (generateKeyPair toy rnd_eph)) pk0 = Inr dh3 \<and>
         deriveSharedSecret toy (privateKey (generateKeyPair toy rnd_eph))
           (spk_publicKey (bundle_signedPreKey (fst (PQXDH_getPublicBundle pq_bob)))) = Inr dh4 \<and>
         kyber_encap toy [9, 9] (bundle_kyberPublicKey (fst (PQXDH_getPublicBundle pq_bob))) = Inr (kyberCiphertext pq_example_message, ss) \<and>
         AES_encrypt toy [] ''hello''
           (deriveKey toy (combineSharedSecrets toy [dh1, dh2, dh3, dh4, base64_encode ss])) =
           Inr (encryptedMessage pq_example_message) \<and>
         ephemeralKey pq_example_message = publicKey (generateKeyPair toy rnd_eph))"
proof -
  note key = C2_encryption_key [where P = toy and rnd = rnd_eph and salt = "[]" and S = alice
      and B = "fst (X3DH_getPublicBundle bob)" and m = "''hello''" and art = example_message
      and coins = "[9, 9]" and S' = pq_alice and B' = "fst (PQXDH_getPublicBundle pq_bob)"
      and qart = pq_example_message]
  have x: "fst (X3DH_encryptMessage toy rnd_eph [] alice (fst (X3DH_getPublicBundle bob)) ''hello'') = Inr example_message"
    using X3DH_example_encrypt by (simp add: example_message_def)
  have q: "fst (PQXDH_encryptMessage toy rnd_eph [9, 9] [] pq_alice (fst (PQXDH_getPublicBundle pq_bob)) ''hello'') = Inr pq_example_message"
    using PQXDH_example_encrypt by (simp add: pq_example_message_def)
  show ?thesis
    using key [THEN conjunct1, THEN mp, OF x] key [THEN conjunct2, THEN mp, OF q] x q
    by (intro conjI)
qed

text \<open>
  C6.  Whenever \<open>encryptMessage\<close> (classical or hybrid) returns, the field
  \<open>usedPreKeyIndex\<close> of the artifact is 0, the bundle has a pre-key at index 0 and that
  pre-key is the operand of the third Diffie-Hellman value of the combined list.  No other
  index is read: two bundles that agree on the identity key, on the public signed pre-key,
  on the pre-key at index 0 (and, hybrid, on the Kyber public key) give the same result,
  whatever their other pre-keys are.
\<close>

theorem C6_first_prekey:
  "(fst (X3DH_encryptMessage P rnd salt S B m) = Inr art \<longrightarrow>
      usedPreKeyIndex art = 0 \<and>
      (\<exists>pk0 dh1 dh2 dh3 dh4.
         js_index (bundle_preKeys B) 0 = Some pk0 \<and>
         deriveSharedSecret P (privateKey (generateKeyPair P rnd)) pk0 = Inr dh3 \<and>
         X3DH_encrypt_sharedSecret P S (generateKeyPair P rnd) B =
           Inr (combineSharedSecrets P [dh1, dh2, dh3, dh4]))) \<and>
   (bundle_identityKey B2 = bundle_identityKey B \<and>
    spk_publicKey (bundle_signedPreKey B2) = spk_publicKey (bundle_signedPreKey B) \<and>
    js_index (bundle_preKeys B2) 0 = js_index (bundle_preKeys B) 0 \<longrightarrow>
      fst (X3DH_encryptMessage P rnd salt S B2 m) = fst (X3DH_encryptMessage P rnd salt S B m)) \<and>
   (fst (PQXDH_encryptMessage P rnd coins salt S' B' m) = Inr qart \<longrightarrow>
      usedPreKeyIndex qart = 0 \<and>
      (\<exists>pk0 dh1 dh2 dh3 dh4 ss.
         js_index (bundle_preKeys B') 0 = Some pk0 \<and>
         deriveSharedSecret P (privateKey (generateKeyPair P rnd)) pk0 = Inr dh3 \<and>
         PQXDH_encrypt_sharedSecret P coins S' (generateKeyPair P rnd) B' =
           Inr (kyberCiphertext qart, combineSharedSecrets P [dh1, dh2, dh3, dh4, ss]))) \<and>
   (bundle_identityKey B2' = bundle_identityKey B' \<and>
    spk_publicKey (bundle_signedPreKey B2') = spk_publicKey (bundle_signedPreKey B') \<and>
    js_index (bundle_preKeys B2') 0 = js_index (bundle_preKeys B') 0 \<and>
    bundle_kyberPublicKey B2' = bundle_kyberPublicKey B' \<longrightarrow>
      fst (PQXDH_encryptMessage P rnd coins salt S' B2' m) =
      fst (PQXDH_encryptMessage P rnd coins salt S' B' m))"
proof (intro conjI impI)
  assume a: "fst (X3DH_encryptMessage P rnd salt S B m) = Inr art"
  then show "usedPreKeyIndex art = 0"
    unfolding X3DH_encryptMessage_Inr by auto
  from a obtain s where "X3DH_encrypt_sharedSecret P S (generateKeyPair P rnd) B = Inr s"
    unfolding X3DH_encryptMessage_Inr by blast
  then show "\<exists>pk0 dh1 dh2 dh3 dh4.
         js_index (bundle_preKeys B) 0 = Some pk0 \<and>
         deriveSharedSecret P (privateKey (generateKeyPair P rnd)) pk0 = Inr dh3 \<and>
         X3DH_encrypt_sharedSecret P S (generateKeyPair P rnd) B =
           Inr (combineSharedSecrets P [dh1, dh2, dh3, dh4])"
    unfolding X3DH_encrypt_sharedSecret_Inr by blast
next
  assume "bundle_identityKey B2 = bundle_identityKey B \<and>
    spk_publicKey (bundle_signedPreKey B2) = spk_publicKey (bundle_signedPreKey B) \<and>
    js_index (bundle_preKeys B2) 0 = js_index (bundle_preKeys B) 0"
  then have "X3DH_encrypt_sharedSecret P S (generateKeyPair P rnd) B2 =
      X3DH_encrypt_sharedSecret P S (generateKeyPair P rnd) B"
    by (intro X3DH_encrypt_sharedSecret_cong) simp_all
  then show "fst (X3DH_encryptMessage P rnd salt S B2 m) = fst (X3DH_encryptMessage P rnd salt S B m)"
    by (simp add: X3DH_encryptMessage_def Let_def)
next
  assume a: "fst (PQXDH_encryptMessage P rnd coins salt S' B' m) = Inr qart"
  then show "usedPreKeyIndex qart = 0"
    unfolding PQXDH_encryptMessage_Inr by auto
  from a obtain s where
    "PQXDH_encrypt_sharedSecret P coins S' (generateKeyPair P rnd) B' = Inr (kyberCiphertext qart, s)"
    unfolding PQXDH_encryptMessage_Inr by auto
  then show "\<exists>pk0 dh1 dh2 dh3 dh4 ss.
         js_index (bundle_preKeys B') 0 = Some pk0 \<and>
         deriveSharedSecret P (privateKey (generateKeyPair P rnd)) pk0 = Inr dh3 \<and>
         PQXDH_encrypt_sharedSecret P coins S' (generateKeyPair P rnd) B' =
           Inr (kyberCiphertext qart, combineSharedSecrets P [dh1, dh2, dh3, dh4, ss])"
    unfolding PQXDH_encrypt_sharedSecret_Inr by blast
next
  assume "bundle_identityKey B2' = bundle_identityKey B' \<and>
    spk_publicKey (bundle_signedPreKey B2') = spk_publicKey (bundle_signedPreKey B') \<and>
    js_index (bundle_preKeys B2') 0 = js_index (bundle_preKeys B') 0 \<and>
    bundle_kyberPublicKey B2' = bundle_kyberPublicKey B'"
  then have "PQXDH_encrypt_sharedSecret P coins S' (generateKeyPair P rnd) B2' =
      PQXDH_encrypt_sharedSecret P coins S' (generateKeyPair P rnd) B'"
    by (intro PQXDH_encrypt_sharedSecret_cong) simp_all
  then show "fst (PQXDH_encryptMessage P rnd coins salt S' B2' m) =
      fst (PQXDH_encryptMessage P rnd coins salt S' B' m)"
    by (simp add: PQXDH_encryptMessage_def Let_def)
qed

theorem C6_witness:
  "fst (X3DH_encryptMessage toy rnd_eph [] alice (fst (X3DH_getPublicBundle bob)) ''hello'') =
     Inr example_message \<and>
   usedPreKeyIndex example_message = 0 \<and>
   js_index (bundle_preKeys bob_bundle_other_prekeys) 0 =
     js_index (bundle_preKeys (fst (X3DH_getPublicBundle bob))) 0 \<and>
   fst (X3DH_encryptMessage toy rnd_eph [] alice bob_bundle_other_prekeys ''hello'') =
     Inr example_message \<and>
   fst (PQXDH_encryptMessage toy rnd_eph [9, 9] [] pq_alice (fst (PQXDH_getPublicBundle pq_bob))
     ''hello'') = Inr pq_example_message \<and>
   usedPreKeyIndex pq_example_message = 0 \<and>
   js_index (bundle_preKeys pq_bob_bundle_other_prekeys) 0 =
     js_index (bundle_preKeys (fst (PQXDH_getPublicBundle pq_bob))) 0 \<and>
   fst (PQXDH_encryptMessage toy rnd_eph [9, 9] [] pq_alice pq_bob_bundle_other_prekeys ''hello'') =
     Inr pq_example_message"
proof -
  note first = C6_first_prekey [where P = toy and rnd = rnd_eph and salt = "[]" and S = alice
      and B = "fst (X3DH_getPublicBundle bob)" and m = "''hello''" and art = example_message
      and ?B2.0 = bob_bundle_other_prekeys
      and coins = "[9, 9]" and S' = pq_alice and B' = "fst (PQXDH_getPublicBundle pq_bob)"
      and qart = pq_example_message and ?B2' = pq_bob_bundle_other_prekeys]
  have x: "fst (X3DH_encryptMessage toy rnd_eph [] alice (fst (X3DH_getPublicBundle bob)) ''hello'') =
     Inr example_message"
    using X3DH_example_encrypt by (simp add: example_message_def)
  have q: "fst (PQXDH_encryptMessage toy rnd_eph [9, 9] [] pq_alice
     (fst (PQXDH_getPublicBundle pq_bob)) ''hello'') = Inr pq_example_message"
    using PQXDH_example_encrypt by (simp add: pq_example_message_def)
  have i: "js_index (bundle_preKeys bob_bundle_other_prekeys) 0 =
     js_index (bundle_preKeys (fst (X3DH_getPublicBundle bob))) 0"
    "js_index (bundle_preKeys pq_bob_bundle_other_prekeys) 0 =
     js_index (bundle_preKeys (fst (PQXDH_getPublicBundle pq_bob))) 0"
    unfolding bob_first_prekey
    by (simp_all add: bob_bundle_other_prekeys_def pq_bob_bundle_other_prekeys_def js_index_def)
  show ?thesis
    using first x q i
    by (simp add: bob_bundle_other_prekeys_def pq_bob_bundle_other_prekeys_def)
qed

text \<open>
  C7.  For a session with ten pre-keys and an index outside 0..9, \<open>decryptMessage\<close>
  (classical or hybrid) throws and returns no plaintext: \<open>this.session.preKeys[i]\<close> is
  \<open>undefined\<close>, and reading its \<open>privateKey\<close> is a \<open>TypeError\<close>, unless one of the two
  derivations before it has thrown already.  The index is an integer here; a number that
  is not an integer addresses no element either.
\<close>

theorem C7_index_out_of_range:
  assumes "length (preKeys S) = 10" and "length (preKeys S') = 10" and "idx < 0 \<or> 9 < idx"
  shows "(\<exists>e. fst (X3DH_decryptMessage P S B c ek idx) = Inl e) \<and>
         (\<exists>e. fst (PQXDH_decryptMessage P S' B' c ek idx ct) = Inl e) \<and>
         (deriveSharedSecret P (privateKey (identityKey S)) (bundle_identityKey B) = Inr d1 \<and>
          deriveSharedSecret P (privateKey (identityKey S)) ek = Inr d2 \<longrightarrow>
            fst (X3DH_decryptMessage P S B c ek idx) = Inl TypeError) \<and>
         (deriveSharedSecret P (privateKey (identityKey S')) (bundle_identityKey B') = Inr d1 \<and>
          deriveSharedSecret P (privateKey (identityKey S')) ek = Inr d2 \<longrightarrow>
            fst (PQXDH_decryptMessage P S' B' c ek idx ct) = Inl TypeError)"
proof (intro conjI impI)
  have u: "js_index (preKeys S) idx = None"
    using assms(1,3) by (rule js_index_out_of_range)
  then obtain e where "X3DH_decrypt_sharedSecret P S B ek idx = Inl e"
    using X3DH_decrypt_undefined_prekey by blast
  then show "\<exists>e. fst (X3DH_decryptMessage P S B c ek idx) = Inl e"
    by (simp add: X3DH_decryptMessage_def bind_err_Inl_simp)
  assume "deriveSharedSecret P (privateKey (identityKey S)) (bundle_identityKey B) = Inr d1 \<and>
          deriveSharedSecret P (privateKey (identityKey S)) ek = Inr d2"
  then show "fst (X3DH_decryptMessage P S B c ek idx) = Inl TypeError"
    by (simp add: X3DH_decryptMessage_def X3DH_decrypt_sharedSecret_def u bind_err_Inr_simp
        bind_err_Inl_simp)
next
  have u: "js_index (preKeys S') idx = None"
    using assms(2,3) by (rule js_index_out_of_range)
  then obtain e where "PQXDH_decrypt_sharedSecret P S' B' ek idx ct = Inl e"
    using PQXDH_decrypt_undefined_prekey by blast
  then show "\<exists>e. fst (PQXDH_decryptMessage P S' B' c ek idx ct) = Inl e"
    by (simp add: PQXDH_decryptMessage_def bind_err_Inl_simp)
  assume "deriveSharedSecret P (privateKey (identityKey S')) (bundle_identityKey B') = Inr d1 \<and>
          deriveSharedSecret P (privateKey (identityKey S')) ek = Inr d2"
  then show "fst (PQXDH_decryptMessage P S' B' c ek idx ct) = Inl TypeError"
    by (simp add: PQXDH_decryptMessage_def PQXDH_decrypt_sharedSecret_def u bind_err_Inr_simp
        bind_err_Inl_simp)
qed

theorem C7_witness:
  "length (preKeys alice) = 10 \<and> length (preKeys pq_alice) = 10 \<and>
   fst (X3DH_decryptMessage toy alice (fst (X3DH_getPublicBundle bob)) ''DtE=hello''
      ''Dw=='' 10) = Inl TypeError \<and>
   fst (PQXDH_decryptMessage toy pq_alice (fst (PQXDH_getPublicBundle pq_bob)) ''DtE=hello''
      ''Dw=='' 10 [9, 9]) = Inl TypeError"
proof -
  have l: "length (preKeys alice) = 10" "length (preKeys pq_alice) = 10"
    by (simp_all add: alice_def pq_alice_def X3DH_init_length PQXDH_init_length)
  have r: "(10 :: int) < 0 \<or> 9 < (10 :: int)"
    by simp
  have d: "\<exists>d. deriveSharedSecret toy k1 k2 = Inr d" for k1 k2
    by (simp add: deriveSharedSecret_def toy_fields bind_err_Inr_simp Let_def
        del: base64_encode.simps)
  obtain d1 d2 d1' d2' where
    "deriveSharedSecret toy (privateKey (identityKey alice))
       (bundle_identityKey (fst (X3DH_getPublicBundle bob))) = Inr d1"
    "deriveSharedSecret toy (privateKey (identityKey alice)) ''Dw=='' = Inr d2"
    "deriveSharedSecret toy (privateKey (identityKey pq_alice))
       (bundle_identityKey (fst (PQXDH_getPublicBundle pq_bob))) = Inr d1'"
    "deriveSharedSecret toy (privateKey (identityKey pq_alice)) ''Dw=='' = Inr d2'"
    using d by metis
  then show ?thesis
    using C7_index_out_of_range [OF l r, where P = toy and B = "fst (X3DH_getPublicBundle bob)"
        and c = "''DtE=hello''" and ek = "''Dw==''" and ?d1.0 = d1 and ?d2.0 = d2]
      C7_index_out_of_range [OF l r, where P = toy and B' = "fst (PQXDH_getPublicBundle pq_bob)"
        and c = "''DtE=hello''" and ek = "''Dw==''" and ct = "[9, 9]" and ?d1.0 = d1'
        and ?d2.0 = d2'] l
    by simp
qed

text \<open>
  C8.  No public operation changes the session of the party: after \<open>getPublicBundle\<close>,
  \<open>encryptMessage\<close> and \<open>decryptMessage\<close>, classical or hybrid, with any arguments and
  whether the call returns or throws, the field \<open>session\<close> is what it was.  (The methods
  contain no assignment to the field or below it, and the packages are functions of their
  arguments.)
\<close>

theorem C8_session_unchanged:
  "snd (X3DH_getPublicBundle S) = S \<and>
   snd (X3DH_encryptMessage P rnd salt S B m) = S \<and>
   snd (X3DH_decryptMessage P S B c ek idx) = S \<and>
   snd (PQXDH_getPublicBundle S') = S' \<and>
   snd (PQXDH_encryptMessage P rnd coins salt S' B' m) = S' \<and>
   snd (PQXDH_decryptMessage P S' B' c ek idx ct) = S'"
  by (simp add: X3DH_getPublicBundle_def X3DH_encryptMessage_def X3DH_decryptMessage_def
      PQXDH_getPublicBundle_def PQXDH_encryptMessage_def PQXDH_decryptMessage_def Let_def)

text \<open>
  C9.  The specification says that no private-key value of the session appears in any
  field of the bundle that \<open>getPublicBundle\<close> returns.  The keys are values, and the
  bytes that \<open>randomBytes(32)\<close> returns for one private key can be the public key of
  another pair: in the run \<open>rnd_coincide\<close> the identity private key is the text
  \<open>rfc_key_a\<close>, and so is the first pre-key of the public bundle, in both classes.
\<close>

theorem C9_counterexample:
  "(\<forall>k. length (rnd_coincide k) = 32) \<and>
   privateKey (identityKey (X3DH_initializeSession curve_at_rfc_pair rnd_coincide)) = rfc_key_a \<and>
   js_index (bundle_preKeys
     (fst (X3DH_getPublicBundle (X3DH_initializeSession curve_at_rfc_pair rnd_coincide)))) 0 =
     Some rfc_key_a \<and>
   privateKey (identityKey (PQXDH_initializeSession curve_at_rfc_pair rnd_coincide [1, 2, 3])) =
     rfc_key_a \<and>
   js_index (bundle_preKeys
     (fst (PQXDH_getPublicBundle (PQXDH_initializeSession curve_at_rfc_pair rnd_coincide [1, 2, 3]))))
     0 = Some rfc_key_a"
proof -
  have c: "rnd_coincide 0 = getPublicKey curve_at_rfc_pair (rnd_coincide (Suc 0))"
    by (simp add: rnd_coincide_values)
  have x: "privateKey (identityKey (X3DH_initializeSession curve_at_rfc_pair rnd_coincide)) =
      rfc_key_a"
    by (simp add: X3DH_init_fields generateKeyPair_fields rnd_coincide_values encode_rfc_public_a)
  have q: "privateKey (identityKey (PQXDH_initializeSession curve_at_rfc_pair rnd_coincide [1, 2, 3])) =
      rfc_key_a"
    by (simp add: PQXDH_init_fields generateKeyPair_fields rnd_coincide_values encode_rfc_public_a)
  show ?thesis
    using private_key_in_bundle(1) [OF c] private_key_in_bundle(2) [OF c, of "[1, 2, 3]"] x q
    by (simp add: rnd_coincide_length)
qed

text \<open>
  C9, as the code has it.  \<open>getPublicBundle\<close> returns the public projection of the
  session: the identity public key, the public keys of the pre-keys in the same order (ten
  for a session made by \<open>initializeSession\<close>), the public key and the signature of the
  signed pre-key and, hybrid, the Kyber public key.  No private key flows into it: two
  sessions with the same public keys and signature have the same bundle, whatever their
  private keys are.
\<close>

theorem C9_public_bundle:
  "bundle_identityKey (fst (X3DH_getPublicBundle S)) = publicKey (identityKey S) \<and>
   bundle_preKeys (fst (X3DH_getPublicBundle S)) = map publicKey (preKeys S) \<and>
   spk_publicKey (bundle_signedPreKey (fst (X3DH_getPublicBundle S))) = publicKey (signedPreKey S) \<and>
   spk_signature (bundle_signedPreKey (fst (X3DH_getPublicBundle S))) = signature (signedPreKey S) \<and>
   length (bundle_preKeys (fst (X3DH_getPublicBundle (X3DH_initializeSession P rnd)))) = 10 \<and>
   (publicKey (identityKey S2) = publicKey (identityKey S) \<and>
    map publicKey (preKeys S2) = map publicKey (preKeys S) \<and>
    publicKey (signedPreKey S2) = publicKey (signedPreKey S) \<and>
    signature (signedPreKey S2) = signature (signedPreKey S) \<longrightarrow>
      fst (X3DH_getPublicBundle S2) = fst (X3DH_getPublicBundle S)) \<and>
   bundle_identityKey (fst (PQXDH_getPublicBundle S')) = publicKey (identityKey S') \<and>
   bundle_preKeys (fst (PQXDH_getPublicBundle S')) = map publicKey (preKeys S') \<and>
   spk_publicKey (bundle_signedPreKey (fst (PQXDH_getPublicBundle S'))) = publicKey (signedPreKey S') \<and>
   spk_signature (bundle_signedPreKey (fst (PQXDH_getPublicBundle S'))) = signature (signedPreKey S') \<and>
   bundle_kyberPublicKey (fst (PQXDH_getPublicBundle S')) = kyber_publicKey (kyberKeyPair S') \<and>
   length (bundle_preKeys (fst (PQXDH_getPublicBundle (PQXDH_initializeSession P rnd seed)))) = 10 \<and>
   (publicKey (identityKey S2') = publicKey (identityKey S') \<and>
    map publicKey (preKeys S2') = map publicKey (preKeys S') \<and>
    publicKey (signedPreKey S2') = publicKey (signedPreKey S') \<and>
    signature (signedPreKey S2') = signature (signedPreKey S') \<and>
    kyber_publicKey (kyberKeyPair S2') = kyber_publicKey (kyberKeyPair S') \<longrightarrow>
      fst (PQXDH_getPublicBundle S2') = fst (PQXDH_getPublicBundle S'))"
  by (simp add: X3DH_getPublicBundle_def PQXDH_getPublicBundle_def X3DH_init_length
      PQXDH_init_length)

theorem C9_witness:
  "privateKey (identityKey alice_other_privates) \<noteq> privateKey (identityKey alice) \<and>
   fst (X3DH_getPublicBundle alice_other_privates) = fst (X3DH_getPublicBundle alice) \<and>
   kyber_privateKey (kyberKeyPair pq_alice_other_privates) = [0] \<and>
   fst (PQXDH_getPublicBundle pq_alice_other_privates) = fst (PQXDH_getPublicBundle pq_alice)"
proof -
  have d: "privateKey (identityKey alice_other_privates) \<noteq> privateKey (identityKey alice)"
    using alice_private_differs by (simp add: alice_other_privates_def)
  show ?thesis
    using C9_public_bundle [where ?S2.0 = alice_other_privates and S = alice
        and ?S2' = pq_alice_other_privates and S' = pq_alice] d
    by (simp add: alice_other_privates_def pq_alice_other_privates_def o_def)
qed

text \<open>
  C10.  \<open>decryptMessage\<close> reads only the field \<open>identityKey\<close> of the sender's bundle:
  for a fixed session, ciphertext, ephemeral key, index (and, hybrid, Kyber ciphertext), two
  sender bundles with the same \<open>identityKey\<close> give the same result, whatever their
  pre-keys, signed pre-key and Kyber public key are.
\<close>

theorem C10_only_identityKey_read:
  "(bundle_identityKey B2 = bundle_identityKey B \<longrightarrow>
      X3DH_decryptMessage P S B2 c ek idx = X3DH_decryptMessage P S B c ek idx) \<and>
   (bundle_identityKey B2' = bundle_identityKey B' \<longrightarrow>
      PQXDH_decryptMessage P S' B2' c ek idx ct = PQXDH_decryptMessage P S' B' c ek idx ct)"
  by (simp add: X3DH_decryptMessage_def X3DH_decrypt_sharedSecret_def
      PQXDH_decryptMessage_def PQXDH_decrypt_sharedSecret_def)

theorem C10_witness:
  "bundle_identityKey alice_bundle_identity_only =
     bundle_identityKey (fst (X3DH_getPublicBundle alice)) \<and>
   bundle_preKeys alice_bundle_identity_only = [] \<and>
   X3DH_decryptMessage toy bob alice_bundle_identity_only ''DtE=hello'' ''Dw=='' 0 =
     X3DH_decryptMessage toy bob (fst (X3DH_getPublicBundle alice)) ''DtE=hello'' ''Dw=='' 0 \<and>
   bundle_identityKey pq_alice_bundle_identity_only =
     bundle_identityKey (fst (PQXDH_getPublicBundle pq_alice)) \<and>
   bundle_kyberPublicKey pq_alice_bundle_identity_only = [] \<and>
   PQXDH_decryptMessage toy pq_bob pq_alice_bundle_identity_only ''DtE=hello'' ''Dw=='' 0 [9, 9] =
     PQXDH_decryptMessage toy pq_bob (fst (PQXDH_getPublicBundle pq_alice)) ''DtE=hello'' ''Dw==''
       0 [9, 9]"
proof -
  have i: "bundle_identityKey alice_bundle_identity_only =
      bundle_identityKey (fst (X3DH_getPublicBundle alice))"
    "bundle_identityKey pq_alice_bundle_identity_only =
      bundle_identityKey (fst (PQXDH_getPublicBundle pq_alice))"
    by (simp_all add: alice_bundle_identity_only_def pq_alice_bundle_identity_only_def)
  have e: "bundle_preKeys alice_bundle_identity_only = []"
    "bundle_kyberPublicKey pq_alice_bundle_identity_only = []"
    by (simp_all add: alice_bundle_identity_only_def pq_alice_bundle_identity_only_def)
  show ?thesis
    using C10_only_identityKey_read [where ?B2.0 = alice_bundle_identity_only
        and B = "fst (X3DH_getPublicBundle alice)" and ?B2' = pq_alice_bundle_identity_only
        and B' = "fst (PQXDH_getPublicBundle pq_alice)" and P = toy and S = bob and S' = pq_bob
        and c = "''DtE=hello''" and ek = "''Dw==''" and idx = 0 and ct = "[9, 9]"] i e
    by simp
qed

end
